theory Spec2Isabelle
  imports Main "HOL-Library.Sublist" "HOL-Library.Char_ord" "HOL-Library.List_Lexorder"
begin

section \<open>Strings\<close>

text \<open>
  JavaScript strings are modelled as \<open>string\<close>: an ASCII character is itself, and a
  character outside ASCII is the sequence of its UTF-8 bytes, which keeps \<open>===\<close>,
  \<open>includes\<close> and \<open>split\<close> on well-formed strings what they are in the program.

  \<open>String.prototype.toLowerCase\<close> follows the case mappings of Unicode, which are data
  of the platform. The functions that call it take it as a parameter named \<open>toLowerCase\<close>,
  and what is proved of them holds whatever that function is. \<open>ascii_lower\<close> is its
  restriction to ASCII strings, at which the examples are evaluated: the letters A to Z
  are mapped to a to z (the code point plus 32, that is, bit 5 set) and every other
  character is left as it is. It is also the case folding of the flag \<open>i\<close> of a regular
  expression on the letters \<open>h\<close> and \<open>s\<close> (without the flag \<open>u\<close> no character
  outside ASCII is folded onto an ASCII letter).
\<close>

definition lower_char :: "char \<Rightarrow> char" where
  "lower_char c =
     (if 65 \<le> (of_char c :: nat) \<and> (of_char c :: nat) \<le> 90
      then (case c of Char b0 b1 b2 b3 b4 b5 b6 b7 \<Rightarrow> Char b0 b1 b2 b3 b4 True b6 b7)
      else c)"

definition ascii_lower :: "string \<Rightarrow> string" where
  "ascii_lower s = map lower_char s"

text \<open>
  \<open>includes_str s t\<close> is \<open>s.includes(t)\<close>: the search string is looked for at position 0,
  then 1, and so on; the empty search string is found in every string.
\<close>

fun includes_str :: "string \<Rightarrow> string \<Rightarrow> bool" where
  "includes_str [] t = (t = [])"
| "includes_str (c # s) t = (prefix t (c # s) \<or> includes_str s t)"

text \<open>
  Decimal digits. \<open>dec\<close> is the value of a string of digits; \<open>toString\<close> is
  \<open>Number.prototype.toString\<close> on an integer; \<open>padStart\<close> is
  \<open>String.prototype.padStart\<close> with a one-character filler: it never shortens.
\<close>

definition isDigit :: "char \<Rightarrow> bool" where
  "isDigit c = (48 \<le> (of_char c :: nat) \<and> (of_char c :: nat) \<le> 57)"

definition digit_val :: "char \<Rightarrow> nat" where
  "digit_val c = of_char c - 48"

definition dec :: "string \<Rightarrow> nat" where
  "dec ds = foldl (\<lambda>a c. 10 * a + digit_val c) 0 ds"

definition digit_char :: "nat \<Rightarrow> char" where
  "digit_char n = ''0123456789'' ! (n mod 10)"

fun digits_of :: "nat \<Rightarrow> string" where
  "digits_of n = (if n < 10 then [digit_char n] else digits_of (n div 10) @ [digit_char (n mod 10)])"

declare digits_of.simps [simp del]

definition toString :: "int \<Rightarrow> string" where
  "toString i = (if i < 0 then CHR ''-'' # digits_of (nat (- i)) else digits_of (nat i))"

definition padStart :: "nat \<Rightarrow> char \<Rightarrow> string \<Rightarrow> string" where
  "padStart n c s = replicate (n - length s) c @ s"

text \<open>
  \<open>parseInt s\<close> is \<open>parseInt(s, 10)\<close>: leading white space is skipped, one sign is
  read, then the longest run of decimal digits; what follows the digits is ignored.
  \<open>None\<close> is \<open>NaN\<close> (no digit was found). White space is \<open>StrWhiteSpaceChar\<close> of
  ECMAScript: tab, line feed, vertical tab, form feed, carriage return and space, and
  outside ASCII the no-break space (U+00A0), the byte order mark (U+FEFF), the line and
  paragraph separators (U+2028, U+2029) and the other space separators of Unicode
  (U+1680, U+2000 to U+200A, U+202F, U+205F, U+3000), each of these as its UTF-8 bytes.
  \<open>whiteSpaceLength s\<close> is the number of bytes of the white space character at the
  head of \<open>s\<close>, and 0 when \<open>s\<close> does not start with one.
\<close>

definition whiteSpaceLength :: "string \<Rightarrow> nat" where
  "whiteSpaceLength s =
     (case (map of_char s :: nat list) of
        [] \<Rightarrow> 0
      | a # r \<Rightarrow>
          if a = 32 \<or> (9 \<le> a \<and> a \<le> 13) then 1
          else (case r of
                  [] \<Rightarrow> 0
                | b # r' \<Rightarrow>
                    if a = 194 \<and> b = 160 then 2
                    else (case r' of
                            [] \<Rightarrow> 0
                          | c # r'' \<Rightarrow>
                              if (a = 225 \<and> b = 154 \<and> c = 128)
                                 \<or> (a = 226 \<and> b = 128
                                      \<and> ((128 \<le> c \<and> c \<le> 138) \<or> c = 168 \<or> c = 169 \<or> c = 175))
                                 \<or> (a = 226 \<and> b = 129 \<and> c = 159)
                                 \<or> (a = 227 \<and> b = 128 \<and> c = 128)
                                 \<or> (a = 239 \<and> b = 187 \<and> c = 191)
                              then 3 else 0)))"

function skipWhiteSpace :: "string \<Rightarrow> string" where
  "skipWhiteSpace s =
     (if whiteSpaceLength s = 0 then s else skipWhiteSpace (drop (whiteSpaceLength s) s))"
  by pat_completeness auto
termination
proof (relation "measure length")
  show "wf (measure length)" by simp
next
  fix s :: string
  assume n: "whiteSpaceLength s \<noteq> 0"
  then have "s \<noteq> []" by (auto simp: whiteSpaceLength_def)
  with n show "(drop (whiteSpaceLength s) s, s) \<in> measure length" by simp
qed

declare skipWhiteSpace.simps [simp del]

definition parseInt :: "string \<Rightarrow> int option" where
  "parseInt s =
     (let t = skipWhiteSpace s;
          sign = (case t of c # r \<Rightarrow> if c = CHR ''-'' then - 1 else 1 | [] \<Rightarrow> (1 :: int));
          u = (case t of c # r \<Rightarrow> if c = CHR ''-'' \<or> c = CHR ''+'' then r else t | [] \<Rightarrow> t);
          ds = takeWhile isDigit u
      in if ds = [] then None else Some (sign * int (dec ds)))"

section \<open>Errors\<close>

text \<open>
  A thrown value is a value of \<open>error\<close>: \<open>Error m\<close> is \<open>new Error(m)\<close>,
  \<open>DeskbirdAPIError statusCode message response\<close> is the class of api.ts, and
  \<open>TypeError\<close>, \<open>SyntaxError\<close> and \<open>RangeError\<close> are the errors of the platform.
  The type \<open>'j\<close> is the type of parsed JSON values. A function that can throw returns
  \<open>'j error + 'a\<close>, with the error on the left.

  In the terms of the specification: \<open>InvalidDate\<close> and \<open>InvalidTime\<close> are the \<open>Error\<close>
  values whose messages start with \<^verbatim>\<open>Invalid date: \<close> and \<^verbatim>\<open>Invalid time: \<close>;
  \<open>Unauthorized\<close>, \<open>Forbidden\<close> and \<open>RateLimited\<close> are the \<open>DeskbirdAPIError\<close> values
  with status codes 401, 403 and 429 and their fixed messages, and \<open>RequestFailed\<close> is
  a \<open>DeskbirdAPIError\<close> with any other status code.
\<close>

datatype 'j body_value = Json 'j | Text string

datatype 'j error =
    Error string
  | DeskbirdAPIError nat string "'j body_value"
  | TypeError string
  | SyntaxError string
  | RangeError string

section \<open>Time input (cli.ts, parseTime)\<close>

text \<open>
  \<^verbatim>\<open>
  function parseTime(timeStr: string | undefined): string | undefined {
    if (!timeStr) return undefined;
    const numMatch = timeStr.match(/^(\d{1,2})(?:hs?)?$/i);
    if (numMatch) {
      const hour = parseInt(numMatch[1], 10);
      if (hour >= 0 && hour <= 23) {
        return `${hour.toString().padStart(2, '0')}:00`;
      }
    }
    const timeMatch = timeStr.match(/^(\d{1,2}):(\d{2})$/);
    if (timeMatch) {
      const hour = parseInt(timeMatch[1], 10);
      const min = parseInt(timeMatch[2], 10);
      if (hour >= 0 && hour <= 23 && min >= 0 && min <= 59) {
        return `${hour.toString().padStart(2, '0')}:${min.toString().padStart(2, '0')}`;
      }
    }
    throw new Error(`Invalid time: ${timeStr}. Use HH:MM, HH or HHhs`);
  }
  \<close>
  The two regular expressions are matched the way the engine matches them: \<open>\d{1,2}\<close>
  is greedy, so two digits are tried first and one digit next; \<open>$\<close> is the end of the
  input; under the flag \<open>i\<close> the letters of \<open>hs?\<close> match in either case. The result of
  a match is its capture groups.
\<close>

definition hs_suffix :: "string \<Rightarrow> bool" where
  "hs_suffix t = (ascii_lower t = [] \<or> ascii_lower t = ''h'' \<or> ascii_lower t = ''hs'')"

definition numMatch :: "string \<Rightarrow> string option" where
  "numMatch s =
     (case s of
        [] \<Rightarrow> None
      | [d1] \<Rightarrow> if isDigit d1 then Some [d1] else None
      | d1 # d2 # t \<Rightarrow>
          if isDigit d1 \<and> isDigit d2 \<and> hs_suffix t then Some [d1, d2]
          else if isDigit d1 \<and> hs_suffix (d2 # t) then Some [d1]
          else None)"

definition timeMatch :: "string \<Rightarrow> (string \<times> string) option" where
  "timeMatch s =
     (case s of
        [h1, h2, c, m1, m2] \<Rightarrow>
          if isDigit h1 \<and> isDigit h2 \<and> c = CHR '':'' \<and> isDigit m1 \<and> isDigit m2
          then Some ([h1, h2], [m1, m2]) else None
      | [h1, c, m1, m2] \<Rightarrow>
          if isDigit h1 \<and> c = CHR '':'' \<and> isDigit m1 \<and> isDigit m2
          then Some ([h1], [m1, m2]) else None
      | _ \<Rightarrow> None)"

definition bare_hour :: "string \<Rightarrow> string option" where
  "bare_hour s =
     (case numMatch s of
        None \<Rightarrow> None
      | Some g \<Rightarrow>
          (case parseInt g of
             None \<Rightarrow> None
           | Some hour \<Rightarrow>
               if hour \<ge> 0 \<and> hour \<le> 23
               then Some (padStart 2 (CHR ''0'') (toString hour) @ '':00'')
               else None))"

definition hour_minute :: "string \<Rightarrow> string option" where
  "hour_minute s =
     (case timeMatch s of
        None \<Rightarrow> None
      | Some (g1, g2) \<Rightarrow>
          (case (parseInt g1, parseInt g2) of
             (Some hour, Some minute) \<Rightarrow>
               if hour \<ge> 0 \<and> hour \<le> 23 \<and> minute \<ge> 0 \<and> minute \<le> 59
               then Some (padStart 2 (CHR ''0'') (toString hour) @ '':'' @
                          padStart 2 (CHR ''0'') (toString minute))
               else None
           | _ \<Rightarrow> None))"

definition parseTime :: "string option \<Rightarrow> 'j error + string option" where
  "parseTime timeStr =
     (case timeStr of
        None \<Rightarrow> Inr None
      | Some s \<Rightarrow>
          if s = [] then Inr None
          else (case bare_hour s of
                  Some r \<Rightarrow> Inr (Some r)
                | None \<Rightarrow>
                    (case hour_minute s of
                       Some r \<Rightarrow> Inr (Some r)
                     | None \<Rightarrow> Inl (Error (''Invalid time: '' @ s @ ''. Use HH:MM, HH or HHhs'')))))"

text \<open>
  The inputs the specification accepts, as it words them: a bare hour is one or two
  digits with value at most 23, followed by nothing, by \<open>h\<close> or by \<open>hs\<close>; a time of
  day is one or two digits with value at most 23, a colon, and two digits with value at
  most 59. \<open>spec_normalizeTime\<close> is the time resolution of the specification: absent
  input gives \<open>undefined\<close>, the two accepted shapes give the zero-padded time, and every
  other input fails with \<open>InvalidTime\<close>.
\<close>

definition all_digits :: "string \<Rightarrow> bool" where
  "all_digits ds = (ds \<noteq> [] \<and> list_all isDigit ds)"

definition pad2 :: "nat \<Rightarrow> string" where
  "pad2 n = padStart 2 (CHR ''0'') (digits_of n)"

definition InvalidTime :: "string \<Rightarrow> 'j error" where
  "InvalidTime s = Error (''Invalid time: '' @ s @ ''. Use HH:MM, HH or HHhs'')"

definition spec_bare_hour :: "string \<Rightarrow> nat option" where
  "spec_bare_hour s =
     (let ds = takeWhile isDigit s; suf = dropWhile isDigit s
      in if all_digits ds \<and> length ds \<le> 2 \<and> (suf = [] \<or> suf = ''h'' \<or> suf = ''hs'') \<and> dec ds \<le> 23
         then Some (dec ds) else None)"

definition spec_hour_minute :: "string \<Rightarrow> (nat \<times> nat) option" where
  "spec_hour_minute s =
     (let hs = takeWhile isDigit s; rest = dropWhile isDigit s
      in case rest of
           [] \<Rightarrow> None
         | c # ms \<Rightarrow>
             if c = CHR '':'' \<and> all_digits hs \<and> length hs \<le> 2 \<and> all_digits ms \<and> length ms = 2
                \<and> dec hs \<le> 23 \<and> dec ms \<le> 59
             then Some (dec hs, dec ms) else None)"

definition spec_normalizeTime :: "string option \<Rightarrow> 'j error + string option" where
  "spec_normalizeTime input =
     (case input of
        None \<Rightarrow> Inr None
      | Some s \<Rightarrow>
          (case spec_bare_hour s of
             Some h \<Rightarrow> Inr (Some (pad2 h @ '':00''))
           | None \<Rightarrow>
               (case spec_hour_minute s of
                  Some (h, m) \<Rightarrow> Inr (Some (pad2 h @ '':'' @ pad2 m))
                | None \<Rightarrow> Inl (InvalidTime s))))"

text \<open>
  The time resolution as amended: the empty string is treated as absent input, and the
  suffix of a bare hour is read without regard to case (\<open>h\<close>, \<open>H\<close>, \<open>hs\<close>, \<open>HS\<close>,
  \<open>Hs\<close>, \<open>hS\<close>).
\<close>

definition amended_bare_hour :: "string \<Rightarrow> nat option" where
  "amended_bare_hour s =
     (let ds = takeWhile isDigit s; suf = ascii_lower (dropWhile isDigit s)
      in if all_digits ds \<and> length ds \<le> 2 \<and> (suf = [] \<or> suf = ''h'' \<or> suf = ''hs'') \<and> dec ds \<le> 23
         then Some (dec ds) else None)"

definition amended_normalizeTime :: "string option \<Rightarrow> 'j error + string option" where
  "amended_normalizeTime input =
     (case input of
        None \<Rightarrow> Inr None
      | Some s \<Rightarrow>
          if s = [] then Inr None
          else (case amended_bare_hour s of
                  Some h \<Rightarrow> Inr (Some (pad2 h @ '':00''))
                | None \<Rightarrow>
                    (case spec_hour_minute s of
                       Some (h, m) \<Rightarrow> Inr (Some (pad2 h @ '':'' @ pad2 m))
                     | None \<Rightarrow> Inl (InvalidTime s))))"

section \<open>Dates of the platform\<close>

text \<open>
  The program handles dates through \<open>Date\<close> objects and reads them back in local time
  with \<open>format(date, 'yyyy-MM-dd')\<close>; only the local calendar day of a \<open>Date\<close> is ever
  observed. A valid \<open>Date\<close> is therefore modelled by its local calendar day, a \<open>civil\<close>
  record whose month is 0-based as in JavaScript, and a \<open>Date\<close> object by
  \<open>civil option\<close>, \<open>None\<close> being \<open>Invalid Date\<close>. A number that may be \<open>NaN\<close> is an
  \<open>int option\<close>.
\<close>

record civil =
  year :: int
  month :: int
  day :: int

definition leap :: "int \<Rightarrow> bool" where
  "leap y = ((y mod 4 = 0 \<and> y mod 100 \<noteq> 0) \<or> y mod 400 = 0)"

definition daysInMonth :: "int \<Rightarrow> int \<Rightarrow> int" where
  "daysInMonth y m =
     (if m = 1 then (if leap y then 29 else 28)
      else if m = 3 \<or> m = 5 \<or> m = 8 \<or> m = 10 then 30 else 31)"

definition valid_civil :: "civil \<Rightarrow> bool" where
  "valid_civil c =
     (0 \<le> month c \<and> month c \<le> 11 \<and> 1 \<le> day c \<and> day c \<le> daysInMonth (year c) (month c))"

text \<open>
  \<open>roll mi d\<close> is the calendar day that \<open>MakeDay\<close> of ECMAScript denotes for day
  number \<open>d\<close> of the month with index \<open>mi = 12 * year + month\<close>: a day below 1 or
  beyond the end of the month is carried into the months before or after.
\<close>

function roll :: "int \<Rightarrow> int \<Rightarrow> civil" where
  "roll mi d =
     (if d < 1 then roll (mi - 1) (d + daysInMonth ((mi - 1) div 12) ((mi - 1) mod 12))
      else if d > daysInMonth (mi div 12) (mi mod 12)
        then roll (mi + 1) (d - daysInMonth (mi div 12) (mi mod 12))
      else \<lparr>year = mi div 12, month = mi mod 12, day = d\<rparr>)"
  by pat_completeness auto
termination
  by (relation "measure (\<lambda>(mi, d). if d < 1 then nat (32 - d) else nat d)")
     (auto simp: daysInMonth_def)

declare roll.simps [simp del]

text \<open>
  The day number of a calendar day, counted from 1 January 1970 (\<open>DayFromYear\<close> of
  ECMAScript plus the day within the year). A time value is in range when it is at most
  8.64e15 milliseconds from the epoch, that is, 100000000 days; the bound is taken on the
  local day number (it is exact when the local zone is UTC, and off by less than a day
  otherwise).
\<close>

definition DayFromYear :: "int \<Rightarrow> int" where
  "DayFromYear y =
     365 * (y - 1970) + (y - 1969) div 4 - (y - 1901) div 100 + (y - 1601) div 400"

definition days_before_month :: "int \<Rightarrow> int \<Rightarrow> int" where
  "days_before_month y m =
     [0, 31, 59, 90, 120, 151, 181, 212, 243, 273, 304, 334] ! nat m
       + (if m \<ge> 2 \<and> leap y then 1 else 0)"

definition day_number :: "civil \<Rightarrow> int" where
  "day_number c = DayFromYear (year c) + days_before_month (year c) (month c) + day c - 1"

definition make_date :: "int \<Rightarrow> int \<Rightarrow> civil option" where
  "make_date mi d =
     (let c = roll mi d
      in if - 100000000 \<le> day_number c \<and> day_number c \<le> 100000000 then Some c else None)"

text \<open>
  \<open>new_Date year month day\<close> is \<open>new Date(year, month, day)\<close>: a \<open>NaN\<close> argument gives
  \<open>Invalid Date\<close>; a year from 0 to 99 stands for 1900 plus that year; month and day
  out of range are carried over; the result is \<open>Invalid Date\<close> when it is out of the
  range of time values. (An engine may also give \<open>Invalid Date\<close> for a year or month
  of absurd size whatever the day, as V8 does beyond a million years; no statement below
  depends on such arguments.)
\<close>

definition new_Date :: "int option \<Rightarrow> int option \<Rightarrow> int option \<Rightarrow> civil option" where
  "new_Date y m d =
     (case (y, m, d) of
        (Some yr, Some mo, Some dt) \<Rightarrow>
          make_date (12 * (if 0 \<le> yr \<and> yr \<le> 99 then 1900 + yr else yr) + mo) dt
      | _ \<Rightarrow> None)"

text \<open>
  \<open>addDays\<close> of date-fns: \<open>date.setDate(date.getDate() + amount)\<close>, and \<open>Invalid Date\<close>
  when the date is invalid or the amount is \<open>NaN\<close>.
\<close>

definition addDays :: "civil option \<Rightarrow> int option \<Rightarrow> civil option" where
  "addDays date amount =
     (case (date, amount) of
        (Some c, Some n) \<Rightarrow> make_date (12 * year c + month c) (day c + n)
      | _ \<Rightarrow> None)"

text \<open>
  \<open>format_date d\<close> is \<open>format(d, 'yyyy-MM-dd')\<close> of date-fns: it throws a \<open>RangeError\<close>
  on \<open>Invalid Date\<close>; \<open>yyyy\<close> is the year of the era (a year \<open>y \<le> 0\<close> is printed as
  \<open>1 - y\<close>) padded with zeros to at least four digits, \<open>MM\<close> and \<open>dd\<close> are the month
  (from 1) and the day padded to two digits.
\<close>

definition addLeadingZeros :: "int \<Rightarrow> nat \<Rightarrow> string" where
  "addLeadingZeros n targetLength =
     (if n < 0 then ''-'' else '''') @ padStart targetLength (CHR ''0'') (toString (abs n))"

definition format_date :: "civil option \<Rightarrow> 'j error + string" where
  "format_date date =
     (case date of
        None \<Rightarrow> Inl (RangeError ''Invalid time value'')
      | Some c \<Rightarrow>
          Inr (addLeadingZeros (if year c > 0 then year c else 1 - year c) 4 @ ''-'' @
               addLeadingZeros (month c + 1) 2 @ ''-'' @
               addLeadingZeros (day c) 2))"

section \<open>Date input (cli.ts, parseDate)\<close>

text \<open>
  \<open>split_on c s\<close> is \<open>s.split(c)\<close> for a one-character separator: the pieces between
  the separators, in order; there is always at least one piece.
\<close>

fun split_on :: "char \<Rightarrow> string \<Rightarrow> string list" where
  "split_on c [] = [[]]"
| "split_on c (x # xs) =
     (if x = c then [] # split_on c xs
      else (case split_on c xs of p # ps \<Rightarrow> (x # p) # ps | [] \<Rightarrow> [[x]]))"

definition manana_tilde :: string where
  "manana_tilde = ''ma'' @ [CHR 0xC3, CHR 0xB1] @ ''ana''"

text \<open>
  \<^verbatim>\<open>
  function parseDate(dateStr: string | undefined): string {
    if (!dateStr || dateStr === 'hoy' || dateStr === 'today') {
      return format(new Date(), 'yyyy-MM-dd');
    }
    if (dateStr === MANANA || dateStr === 'manana' || dateStr === 'tomorrow') {
      return format(addDays(new Date(), 1), 'yyyy-MM-dd');
    }
    const parsed = parseISO(dateStr);
    if (isValid(parsed)) {
      return format(parsed, 'yyyy-MM-dd');
    }
    const parts = dateStr.split('/');
    if (parts.length >= 2) {
      const day = parseInt(parts[0], 10);
      const month = parseInt(parts[1], 10) - 1;
      const year = parts[2] ? parseInt(parts[2], 10) : new Date().getFullYear();
      const date = new Date(year, month, day);
      if (isValid(date)) {
        return format(date, 'yyyy-MM-dd');
      }
    }
    throw new Error(`Invalid date: ${dateStr}. Use YYYY-MM-DD, DD/MM or DD/MM/YYYY`);
  }
  \<close>
  (\<open>MANANA\<close> stands for the literal \<open>manana\<close> written with n-tilde, in the model
  \<open>manana_tilde\<close>). The function reads the clock and calls \<open>parseISO\<close> of date-fns,
  which is not part of the repository; both are parameters of the model: \<open>now\<close> is the
  local calendar day of \<open>new Date()\<close>, and \<open>parseISO s\<close> is the local calendar day of
  the date that date-fns parses from \<open>s\<close>, or \<open>None\<close> when that date is invalid.
  \<open>parts[2]\<close> is falsy when there is no third piece and when it is empty.
\<close>

definition slash_date :: "civil \<Rightarrow> string \<Rightarrow> civil option" where
  "slash_date now dateStr =
     (let parts = split_on (CHR ''/'') dateStr
      in if length parts \<ge> 2
         then (let day = parseInt (parts ! 0);
                   month = map_option (\<lambda>m. m - 1) (parseInt (parts ! 1));
                   year = (if length parts > 2 \<and> parts ! 2 \<noteq> [] then parseInt (parts ! 2)
                           else Some (year now))
               in new_Date year month day)
         else None)"

definition parseDate ::
  "(string \<Rightarrow> civil option) \<Rightarrow> civil \<Rightarrow> string option \<Rightarrow> 'j error + string" where
  "parseDate parseISO now dateStr =
     (case dateStr of
        None \<Rightarrow> format_date (Some now)
      | Some s \<Rightarrow>
          if s = [] \<or> s = ''hoy'' \<or> s = ''today'' then format_date (Some now)
          else if s = manana_tilde \<or> s = ''manana'' \<or> s = ''tomorrow''
            then format_date (addDays (Some now) (Some 1))
          else (case parseISO s of
                  Some parsed \<Rightarrow> format_date (Some parsed)
                | None \<Rightarrow>
                    (case slash_date now s of
                       Some date \<Rightarrow> format_date (Some date)
                     | None \<Rightarrow>
                         Inl (Error (''Invalid date: '' @ s @
                                ''. Use YYYY-MM-DD, DD/MM or DD/MM/YYYY'')))))"

definition InvalidDate :: "string \<Rightarrow> 'j error" where
  "InvalidDate s = Error (''Invalid date: '' @ s @ ''. Use YYYY-MM-DD, DD/MM or DD/MM/YYYY'')"

text \<open>
  Modelled from the spec: \<open>parseISO\<close> is code of date-fns and is not under src/. The
  specification has rule (3) accept a strict ISO-8601 calendar date; \<open>parseISO_calendar\<close>
  accepts exactly the strings \<open>YYYY-MM-DD\<close> (four digits, two digits, two digits) that
  name a day of the calendar, and denotes that day. It is the instance of the parameter
  at which the examples are evaluated.
\<close>

definition parseISO_calendar :: "string \<Rightarrow> civil option" where
  "parseISO_calendar s =
     (case s of
        [y1, y2, y3, y4, a, m1, m2, b, d1, d2] \<Rightarrow>
          if list_all isDigit [y1, y2, y3, y4, m1, m2, d1, d2] \<and> a = CHR ''-'' \<and> b = CHR ''-''
          then (let c = \<lparr>year = int (dec [y1, y2, y3, y4]), month = int (dec [m1, m2]) - 1,
                          day = int (dec [d1, d2])\<rparr>
                in if valid_civil c then Some c else None)
          else None
      | _ \<Rightarrow> None)"

definition day0 :: civil where
  "day0 = \<lparr>year = 2024, month = 1, day = 29\<rparr>"

text \<open>
  The day after a calendar day, and the shape \<open>YYYY-MM-DD\<close>: four digits, two digits
  and two digits, separated by hyphens.
\<close>

definition next_day :: "civil \<Rightarrow> civil" where
  "next_day c =
     (if day c < daysInMonth (year c) (month c) then c\<lparr>day := day c + 1\<rparr>
      else if month c < 11 then \<lparr>year = year c, month = month c + 1, day = 1\<rparr>
      else \<lparr>year = year c + 1, month = 0, day = 1\<rparr>)"

definition is_yyyy_mm_dd :: "string \<Rightarrow> bool" where
  "is_yyyy_mm_dd s =
     (case s of
        [y1, y2, y3, y4, a, m1, m2, b, d1, d2] \<Rightarrow>
          list_all isDigit [y1, y2, y3, y4, m1, m2, d1, d2] \<and> a = CHR ''-'' \<and> b = CHR ''-''
      | _ \<Rightarrow> False)"

section \<open>Data model (types.ts)\<close>

datatype ResourceType = flexDesk | meetingRoom | parking | other

record Resource =
  r_id :: string
  r_name :: string
  r_type :: ResourceType
  r_officeId :: string

record Office =
  o_id :: string
  o_name :: string

record User =
  u_id :: string
  u_firstName :: string
  u_lastName :: string
  u_email :: string

datatype BookingStatus = pending | accepted | declined | cancelled

datatype CheckInStatus = checkin_pending | checkedIn | checkedOut | noShow

record Booking =
  b_id :: string
  b_userId :: string
  b_resourceId :: string
  b_officeId :: string
  b_startTime :: string
  b_endTime :: string
  b_status :: BookingStatus
  b_checkInStatus :: CheckInStatus

record CreateBookingRequest =
  cb_userId :: string
  cb_resourceId :: string
  cb_startTime :: string
  cb_endTime :: string

record 'a PaginatedResponse =
  pr_data :: "'a list"
  pr_total :: int
  pr_limit :: int
  pr_offset :: int

record ListResourcesParams =
  lr_officeId :: "string option"
  lr_zoneId :: "string option"
  lr_type :: "ResourceType option"
  lr_limit :: "int option"
  lr_offset :: "int option"

record ListBookingsParams =
  lb_startDate :: string
  lb_endDate :: string
  lb_userId :: "string option"
  lb_officeId :: "string option"
  lb_resourceId :: "string option"
  lb_zoneId :: "string option"
  lb_status :: "BookingStatus option"
  lb_limit :: "int option"
  lb_offset :: "int option"

text \<open>
  The optional fields of the interfaces that no modelled function reads (time zone,
  floor, embedded summaries, audit fields) are left out; an optional field that is read
  is an \<open>option\<close>, \<open>None\<close> being \<open>undefined\<close>.
\<close>

definition ResourceType_string :: "ResourceType \<Rightarrow> string" where
  "ResourceType_string t =
     (case t of flexDesk \<Rightarrow> ''flexDesk'' | meetingRoom \<Rightarrow> ''meetingRoom''
      | parking \<Rightarrow> ''parking'' | other \<Rightarrow> ''other'')"

definition BookingStatus_string :: "BookingStatus \<Rightarrow> string" where
  "BookingStatus_string s =
     (case s of pending \<Rightarrow> ''pending'' | accepted \<Rightarrow> ''accepted''
      | declined \<Rightarrow> ''declined'' | cancelled \<Rightarrow> ''cancelled'')"

section \<open>The HTTP exchange (api.ts, DeskbirdClient.request)\<close>

text \<open>
  A parsed JSON value is a value of \<open>json\<close>: a value of one of the shapes the client
  declares for its responses, the document \<open>null\<close>, or any other JSON document (an
  error document, say), kept as its text. The casts of the client (\<open>as Promise<T>\<close>)
  are unchecked; \<open>as_offices\<close> and the other views give the typed value of a document
  that has the declared shape.
\<close>

datatype json =
    JOffices "Office PaginatedResponse"
  | JResources "Resource PaginatedResponse"
  | JUsers "User PaginatedResponse"
  | JBookings "Booking PaginatedResponse"
  | JBooking Booking
  | JNull
  | JOther string

definition as_offices :: "json \<Rightarrow> Office PaginatedResponse option" where
  "as_offices j = (case j of JOffices p \<Rightarrow> Some p | _ \<Rightarrow> None)"

definition as_resources :: "json \<Rightarrow> Resource PaginatedResponse option" where
  "as_resources j = (case j of JResources p \<Rightarrow> Some p | _ \<Rightarrow> None)"

definition as_users :: "json \<Rightarrow> User PaginatedResponse option" where
  "as_users j = (case j of JUsers p \<Rightarrow> Some p | _ \<Rightarrow> None)"

definition as_bookings :: "json \<Rightarrow> Booking PaginatedResponse option" where
  "as_bookings j = (case j of JBookings p \<Rightarrow> Some p | _ \<Rightarrow> None)"

text \<open>
  A request as the client builds it: method, path, the query parameters set on the URL
  (in the order they are set, each value turned into a string) and the body given to
  \<open>JSON.stringify\<close>. The two headers are the same on every request and are left out.
  A response as \<open>fetch\<close> delivers it: status, status text and body. The body is absent
  (\<open>NullBody\<close>, as for status 204 or 304), or a stream whose text parses as JSON
  (\<open>JsonBody text value\<close>), or a stream whose text does not (\<open>TextBody text\<close>).
\<close>

datatype param_value = PStr string | PNum int

definition String :: "param_value \<Rightarrow> string" where
  "String v = (case v of PStr s \<Rightarrow> s | PNum n \<Rightarrow> toString n)"

record http_request =
  rq_method :: string
  rq_path :: string
  rq_query :: "(string \<times> string) list"
  rq_body :: "CreateBookingRequest option"

datatype body = NullBody | JsonBody string json | TextBody string

record http_response =
  rs_status :: nat
  rs_statusText :: string
  rs_body :: body

definition ok :: "http_response \<Rightarrow> bool" where
  "ok response = (200 \<le> rs_status response \<and> rs_status response \<le> 299)"

text \<open>
  \<open>response.json()\<close> and \<open>response.text()\<close> consume the body (the Fetch standard,
  \<open>consume body\<close>): on a body that is a stream already read they reject with a
  \<open>TypeError\<close>; otherwise they read the stream, which marks it as used, and \<open>json\<close>
  then parses the text and rejects with a \<open>SyntaxError\<close> when it is not JSON. An absent
  body is never marked as used: it reads as the empty text, which is not JSON. The flag
  \<open>used\<close> is the state of the body before the call, and is returned updated.
\<close>

definition response_json :: "http_response \<Rightarrow> bool \<Rightarrow> (json error + json) \<times> bool" where
  "response_json response used =
     (case rs_body response of
        NullBody \<Rightarrow> (Inl (SyntaxError ''Unexpected end of JSON input''), used)
      | JsonBody t j \<Rightarrow>
          if used then (Inl (TypeError ''Body is unusable: Body has already been read''), used)
          else (Inr j, True)
      | TextBody t \<Rightarrow>
          if used then (Inl (TypeError ''Body is unusable: Body has already been read''), used)
          else (Inl (SyntaxError ''Unexpected token''), True))"

definition response_text :: "http_response \<Rightarrow> bool \<Rightarrow> (json error + string) \<times> bool" where
  "response_text response used =
     (case rs_body response of
        NullBody \<Rightarrow> (Inr [], used)
      | JsonBody t j \<Rightarrow>
          if used then (Inl (TypeError ''Body is unusable: Body has already been read''), used)
          else (Inr t, True)
      | TextBody t \<Rightarrow>
          if used then (Inl (TypeError ''Body is unusable: Body has already been read''), used)
          else (Inr t, True))"

text \<open>
  \<^verbatim>\<open>
  private async request<T>(method, path, options = {}): Promise<T> {
    const url = new URL(`${this.baseUrl}${path}`);
    if (options.params) {
      for (const [key, value] of Object.entries(options.params)) {
        if (value !== undefined) { url.searchParams.set(key, String(value)); }
      }
    }
    ...
    const response = await fetch(url.toString(), { method, headers,
      body: options.body ? JSON.stringify(options.body) : undefined });
    if (!response.ok) {
      let errorBody: unknown;
      try { errorBody = await response.json(); }
      catch { errorBody = await response.text(); }
      if (response.status === 401) {
        throw new DeskbirdAPIError(401, 'Invalid API key. Check your DESKBIRD_API_KEY.', errorBody);
      }
      if (response.status === 403) {
        throw new DeskbirdAPIError(403, 'Not authorized to access this resource.', errorBody);
      }
      if (response.status === 429) {
        throw new DeskbirdAPIError(429, 'Rate limit exceeded. Please wait before retrying.', errorBody);
      }
      throw new DeskbirdAPIError(response.status,
        `API request failed: ${response.statusText}`, errorBody);
    }
    return response.json() as Promise<T>;
  }
  \<close>
  The service is a parameter: \<open>fetch log req\<close> is the response to the request \<open>req\<close>
  after the requests \<open>log\<close> of the same run. \<open>request\<close> returns what the method returns
  or throws, and the log extended with the request it sent.
\<close>

definition build_request ::
  "string \<Rightarrow> string \<Rightarrow> (string \<times> param_value option) list \<Rightarrow> CreateBookingRequest option
     \<Rightarrow> http_request" where
  "build_request method path params body =
     \<lparr>rq_method = method, rq_path = path,
      rq_query = concat (map (\<lambda>(key, value).
                   case value of None \<Rightarrow> [] | Some v \<Rightarrow> [(key, String v)]) params),
      rq_body = body\<rparr>"

definition api_error :: "http_response \<Rightarrow> json body_value \<Rightarrow> json error" where
  "api_error response errorBody =
     (if rs_status response = 401
        then DeskbirdAPIError 401 ''Invalid API key. Check your DESKBIRD_API_KEY.'' errorBody
      else if rs_status response = 403
        then DeskbirdAPIError 403 ''Not authorized to access this resource.'' errorBody
      else if rs_status response = 429
        then DeskbirdAPIError 429 ''Rate limit exceeded. Please wait before retrying.'' errorBody
      else DeskbirdAPIError (rs_status response)
             (''API request failed: '' @ rs_statusText response) errorBody)"

definition handle_response :: "http_response \<Rightarrow> json error + json" where
  "handle_response response =
     (if \<not> ok response
      then (case response_json response False of
              (Inr j, used) \<Rightarrow> Inl (api_error response (Json j))
            | (Inl e, used) \<Rightarrow>
                (case response_text response used of
                   (Inr t, used') \<Rightarrow> Inl (api_error response (Text t))
                 | (Inl e', used') \<Rightarrow> Inl e'))
      else fst (response_json response False))"

definition request ::
  "(http_request list \<Rightarrow> http_request \<Rightarrow> http_response) \<Rightarrow> string \<Rightarrow> string
     \<Rightarrow> (string \<times> param_value option) list \<Rightarrow> CreateBookingRequest option
     \<Rightarrow> http_request list \<Rightarrow> (json error + json) \<times> http_request list" where
  "request fetch method path params body log =
     (let req = build_request method path params body
      in (handle_response (fetch log req), log @ [req]))"

section \<open>The client operations (api.ts)\<close>

text \<open>
  \<open>v || d\<close> on an optional number: \<open>d\<close> when \<open>v\<close> is \<open>undefined\<close> or 0. A default
  parameter value (\<open>limit = 100\<close>) applies when the argument is \<open>undefined\<close> only.
  \<open>typed view j\<close> is the use of a parsed list response at its declared type: the list
  operations read its field \<open>data\<close> and their callers use the items as the declared
  records. What the program does with a document of another shape depends on that shape
  (most uses throw a \<open>TypeError\<close>); the model stops there with a \<open>TypeError\<close>, and
  what is stated of the result of a list operation is stated for responses of the
  declared shape. \<open>createBooking\<close> and \<open>checkIn\<close> return the parsed response as it
  is, whatever its shape.
\<close>

definition or_num :: "int option \<Rightarrow> int \<Rightarrow> int" where
  "or_num v d = (case v of None \<Rightarrow> d | Some n \<Rightarrow> if n = 0 then d else n)"

definition typed :: "(json \<Rightarrow> 'a option) \<Rightarrow> json error + json \<Rightarrow> json error + 'a" where
  "typed view r =
     (case r of
        Inl e \<Rightarrow> Inl e
      | Inr j \<Rightarrow>
          (case view j of
             Some v \<Rightarrow> Inr v
           | None \<Rightarrow> Inl (TypeError ''response is not of the declared type'')))"

definition listOffices ::
  "(http_request list \<Rightarrow> http_request \<Rightarrow> http_response) \<Rightarrow> http_request list
     \<Rightarrow> (json error + Office list) \<times> http_request list" where
  "listOffices fetch log =
     (let (response, log') = request fetch ''GET'' ''/offices'' [(''limit'', Some (PNum 100))] None log
      in (map_sum id pr_data (typed as_offices response), log'))"

definition listResources ::
  "(http_request list \<Rightarrow> http_request \<Rightarrow> http_response) \<Rightarrow> ListResourcesParams
     \<Rightarrow> http_request list \<Rightarrow> (json error + Resource list) \<times> http_request list" where
  "listResources fetch params log =
     (let (response, log') = request fetch ''GET'' ''/resources''
            [(''officeId'', map_option PStr (lr_officeId params)),
             (''zoneId'', map_option PStr (lr_zoneId params)),
             (''type'', map_option (\<lambda>t. PStr (ResourceType_string t)) (lr_type params)),
             (''limit'', Some (PNum (or_num (lr_limit params) 100))),
             (''offset'', Some (PNum (or_num (lr_offset params) 0)))] None log
      in (map_sum id pr_data (typed as_resources response), log'))"

definition listUsers ::
  "(http_request list \<Rightarrow> http_request \<Rightarrow> http_response) \<Rightarrow> int option \<Rightarrow> int option
     \<Rightarrow> http_request list \<Rightarrow> (json error + User list) \<times> http_request list" where
  "listUsers fetch limit offset log =
     (let (response, log') = request fetch ''GET'' ''/users''
            [(''limit'', Some (PNum (case limit of None \<Rightarrow> 100 | Some n \<Rightarrow> n))),
             (''offset'', Some (PNum (case offset of None \<Rightarrow> 0 | Some n \<Rightarrow> n)))] None log
      in (map_sum id pr_data (typed as_users response), log'))"

definition listBookings ::
  "(http_request list \<Rightarrow> http_request \<Rightarrow> http_response) \<Rightarrow> ListBookingsParams
     \<Rightarrow> http_request list \<Rightarrow> (json error + Booking list) \<times> http_request list" where
  "listBookings fetch params log =
     (let (response, log') = request fetch ''GET'' ''/bookings''
            [(''startDate'', Some (PStr (lb_startDate params))),
             (''endDate'', Some (PStr (lb_endDate params))),
             (''userId'', map_option PStr (lb_userId params)),
             (''officeId'', map_option PStr (lb_officeId params)),
             (''resourceId'', map_option PStr (lb_resourceId params)),
             (''zoneId'', map_option PStr (lb_zoneId params)),
             (''status'', map_option (\<lambda>s. PStr (BookingStatus_string s)) (lb_status params)),
             (''limit'', Some (PNum (or_num (lb_limit params) 100))),
             (''offset'', Some (PNum (or_num (lb_offset params) 0)))] None log
      in (map_sum id pr_data (typed as_bookings response), log'))"

definition createBooking ::
  "(http_request list \<Rightarrow> http_request \<Rightarrow> http_response) \<Rightarrow> CreateBookingRequest
     \<Rightarrow> http_request list \<Rightarrow> (json error + json) \<times> http_request list" where
  "createBooking fetch data log = request fetch ''POST'' ''/bookings'' [] (Some data) log"

definition cancelBooking ::
  "(http_request list \<Rightarrow> http_request \<Rightarrow> http_response) \<Rightarrow> string
     \<Rightarrow> http_request list \<Rightarrow> (json error + unit) \<times> http_request list" where
  "cancelBooking fetch bookingId log =
     (let (response, log') = request fetch ''DELETE'' (''/bookings/'' @ bookingId) [] None log
      in (map_sum id (\<lambda>j. ()) response, log'))"

definition checkIn ::
  "(http_request list \<Rightarrow> http_request \<Rightarrow> http_response) \<Rightarrow> string
     \<Rightarrow> http_request list \<Rightarrow> (json error + json) \<times> http_request list" where
  "checkIn fetch bookingId log =
     request fetch ''PATCH'' (''/bookings/'' @ bookingId @ ''/check-in'') [] None log"

section \<open>Resource resolution (cli.ts, the book, cancel and checkin actions)\<close>

text \<open>
  The three actions find the resource with the same expression:
  \<^verbatim>\<open>
  resources.find(
    r => r.id === resourceArg ||
         r.name.toLowerCase() === resourceArg.toLowerCase() ||
         r.name.toLowerCase().includes(resourceArg.toLowerCase()))
  \<close>
  \<open>Array.prototype.find\<close> returns the first element, in array order, for which the
  predicate holds, and \<open>undefined\<close> (here \<open>None\<close>) when there is none.
\<close>

definition find_resource ::
  "(string \<Rightarrow> string) \<Rightarrow> string \<Rightarrow> Resource list \<Rightarrow> Resource option" where
  "find_resource toLowerCase resourceArg resources =
     find (\<lambda>r. r_id r = resourceArg \<or>
               toLowerCase (r_name r) = toLowerCase resourceArg \<or>
               includes_str (toLowerCase (r_name r)) (toLowerCase resourceArg)) resources"

text \<open>
  The three matching tiers of the specification, as predicates on one candidate, and the
  tiered resolution the specification describes: each tier is searched over the whole
  candidate sequence before the next tier is considered. \<open>lower\<close> is the case folding.
\<close>

definition tier1 :: "string \<Rightarrow> Resource \<Rightarrow> bool" where
  "tier1 token r = (r_id r = token)"

definition tier2 :: "(string \<Rightarrow> string) \<Rightarrow> string \<Rightarrow> Resource \<Rightarrow> bool" where
  "tier2 lower token r = (lower (r_name r) = lower token)"

definition tier3 :: "(string \<Rightarrow> string) \<Rightarrow> string \<Rightarrow> Resource \<Rightarrow> bool" where
  "tier3 lower token r = sublist (lower token) (lower (r_name r))"

definition resolve_tiered ::
  "(string \<Rightarrow> string) \<Rightarrow> string \<Rightarrow> Resource list \<Rightarrow> Resource option" where
  "resolve_tiered lower token candidates =
     (case find (tier1 token) candidates of
        Some r \<Rightarrow> Some r
      | None \<Rightarrow>
         (case find (tier2 lower token) candidates of
            Some r \<Rightarrow> Some r
          | None \<Rightarrow> find (tier3 lower token) candidates))"

text \<open>
  The candidates of the examples: the two desks of the specification, and a room whose
  name contains the identifier of the second desk.
\<close>

definition desk1 :: Resource where
  "desk1 = \<lparr>r_id = ''a1'', r_name = ''Desk 1'', r_type = flexDesk, r_officeId = ''o1''\<rparr>"

definition desk12 :: Resource where
  "desk12 = \<lparr>r_id = ''a2'', r_name = ''Desk 12'', r_type = flexDesk, r_officeId = ''o1''\<rparr>"

definition sala2 :: Resource where
  "sala2 = \<lparr>r_id = ''x9'', r_name = ''Sala2'', r_type = meetingRoom, r_officeId = ''o1''\<rparr>"

section \<open>The actions (cli.ts)\<close>

text \<open>
  What an action reads from outside: the clock and \<open>parseISO\<close> (see \<open>parseDate\<close>), the
  case folding of the platform (see \<open>find_resource\<close>), the service, the environment
  variables, and the default office of the configuration
  (\<open>getConfig().defaultOfficeId\<close>; loading the configuration is not modelled).
\<close>

record env =
  env_now :: civil
  env_parseISO :: "string \<Rightarrow> civil option"
  env_toLowerCase :: "string \<Rightarrow> string"
  env_fetch :: "http_request list \<Rightarrow> http_request \<Rightarrow> http_response"
  env_vars :: "string \<Rightarrow> string option"
  env_defaultOfficeId :: "string option"

text \<open>
  \<open>a || b\<close> on optional strings: \<open>b\<close> when \<open>a\<close> is \<open>undefined\<close> or empty.
  \<^verbatim>\<open>
  function getCurrentUser() {
    return { id: process.env.OPENCLAW_USER_ID || process.env.DESKBIRD_USER_ID
                 || process.env.USER || 'unknown', ... };
  }
  \<close>
\<close>

definition or_str :: "string option \<Rightarrow> string option \<Rightarrow> string option" where
  "or_str a b = (case a of None \<Rightarrow> b | Some s \<Rightarrow> if s = [] then b else Some s)"

definition getCurrentUser_id :: "(string \<Rightarrow> string option) \<Rightarrow> string" where
  "getCurrentUser_id vars =
     (case or_str (vars ''OPENCLAW_USER_ID'')
             (or_str (vars ''DESKBIRD_USER_ID'') (or_str (vars ''USER'') (Some ''unknown''))) of
        Some s \<Rightarrow> s
      | None \<Rightarrow> ''unknown'')"

text \<open>
  How an action ends: with its result, or through \<open>process.exit(1)\<close>. \<open>Failed e\<close> is the
  \<open>catch\<close> branch, where \<open>handleError\<close> prints the error and exits;
  \<open>ResourceNotFound\<close> and \<open>BookingNotFound\<close> are the two exits after a message of
  their own. An action returns its outcome and the requests it sent, in order.
  \<open>BookingConfirmed\<close> carries the response to the create request, of which the action
  prints the field \<open>id\<close>.
\<close>

datatype outcome =
    BookingConfirmed json
  | BookingCancelled
  | CheckedIn
  | Listed "(string \<times> Booking list) list"
  | ResourceNotFound string
  | BookingNotFound
  | Failed "json error"


text \<open>
  \<^verbatim>\<open>
  .action(async (resourceArg, options) => {
    try {
      const date = parseDate(options.date);
      const officeId = options.office || getConfig().defaultOfficeId;
      const startTime = parseTime(options.start) || '09:00';
      const endTime = parseTime(options.end) || '18:00';
      const currentUser = getCurrentUser();
      const resources = await getClient().listResources({ officeId });
      const resource = resources.find(...);
      if (!resource) { ...; process.exit(1); }
      const startDateTime = `${date}T${startTime}:00.000Z`;
      const endDateTime = `${date}T${endTime}:00.000Z`;
      const booking = await getClient().createBooking({
        userId: currentUser.id, resourceId: resource.id,
        startTime: startDateTime, endTime: endDateTime });
      console.log(... `Booking confirmed: ...`);
      console.log(... `Booking ID: ${booking.id}`);
    } catch (err) { handleError(err); }
  })
  \<close>
  Reading \<open>booking.id\<close> throws a \<open>TypeError\<close> when the response is \<open>null\<close>, and
  gives a value or \<open>undefined\<close> on every other document.
\<close>

definition or_time :: "string option \<Rightarrow> string \<Rightarrow> string" where
  "or_time t d = (case t of None \<Rightarrow> d | Some s \<Rightarrow> if s = [] then d else s)"

definition office_params :: "string option \<Rightarrow> ListResourcesParams" where
  "office_params officeId =
     \<lparr>lr_officeId = officeId, lr_zoneId = None, lr_type = None, lr_limit = None, lr_offset = None\<rparr>"


record cancel_options =
  co_date :: "string option"
  co_office :: "string option"

text \<open>
  \<^verbatim>\<open>
  .action(async (resourceArg, options) => {
    try {
      const date = parseDate(options.date);
      const officeId = options.office || getConfig().defaultOfficeId;
      const currentUser = getCurrentUser();
      const resources = await getClient().listResources({ officeId });
      const resource = resources.find(...);
      if (!resource) { ...; process.exit(1); }
      const bookings = await getClient().listBookings({
        startDate: date, endDate: date, resourceId: resource.id, userId: currentUser.id });
      if (bookings.length === 0) { ...; process.exit(1); }
      const booking = bookings[0];
      await getClient().cancelBooking(booking.id);
      ...
    } catch (err) { handleError(err); }
  })
  \<close>
\<close>

definition day_params ::
  "string \<Rightarrow> string \<Rightarrow> string option \<Rightarrow> string option \<Rightarrow> string option \<Rightarrow> ListBookingsParams" where
  "day_params startDate endDate userId officeId resourceId =
     \<lparr>lb_startDate = startDate, lb_endDate = endDate, lb_userId = userId,
      lb_officeId = officeId, lb_resourceId = resourceId, lb_zoneId = None, lb_status = None,
      lb_limit = None, lb_offset = None\<rparr>"

definition cancel :: "env \<Rightarrow> string \<Rightarrow> cancel_options \<Rightarrow> outcome \<times> http_request list" where
  "cancel e resourceArg options =
     (case parseDate (env_parseISO e) (env_now e) (co_date options) of
        Inl err \<Rightarrow> (Failed err, [])
      | Inr date \<Rightarrow>
     (let officeId = or_str (co_office options) (env_defaultOfficeId e);
          currentUser = getCurrentUser_id (env_vars e) in
      case listResources (env_fetch e) (office_params officeId) [] of
        (Inl err, log) \<Rightarrow> (Failed err, log)
      | (Inr resources, log) \<Rightarrow>
     (case find_resource (env_toLowerCase e) resourceArg resources of
        None \<Rightarrow> (ResourceNotFound resourceArg, log)
      | Some resource \<Rightarrow>
     (case listBookings (env_fetch e)
             (day_params date date (Some currentUser) None (Some (r_id resource))) log of
        (Inl err, log') \<Rightarrow> (Failed err, log')
      | (Inr bookings, log') \<Rightarrow>
     (case bookings of
        [] \<Rightarrow> (BookingNotFound, log')
      | booking # rest \<Rightarrow>
     (case cancelBooking (env_fetch e) (b_id booking) log' of
        (Inl err, log'') \<Rightarrow> (Failed err, log'')
      | (Inr u, log'') \<Rightarrow> (BookingCancelled, log'')))))))"

text \<open>
  The \<open>my\<close> action. The option \<open>days\<close> has the default \<open>14\<close> (as a string). The
  bookings are grouped in a \<open>Map\<close> keyed by the date part of the start time; a \<open>Map\<close>
  iterates in the order in which its keys were first set, so it is modelled as an
  association list to which a new key is added at the end.
  \<^verbatim>\<open>
  .option('-d, --days <n>', 'Days ahead to show (default: 14)', '14')
  .action(async (options) => {
    try {
      const currentUser = getCurrentUser();
      const today = format(new Date(), 'yyyy-MM-dd');
      const endDate = format(addDays(new Date(), parseInt(options.days, 10)), 'yyyy-MM-dd');
      const bookings = await getClient().listBookings({
        startDate: today, endDate, userId: currentUser.id });
      if (bookings.length === 0) { ...; return; }
      const byDate = new Map<string, Booking[]>();
      for (const booking of bookings) {
        const date = booking.startTime.split('T')[0];
        const list = byDate.get(date) || [];
        list.push(booking);
        byDate.set(date, list);
      }
      for (const [date, dateBookings] of byDate) { ... print ... }
    } catch (err) { handleError(err); }
  })
  \<close>
\<close>

definition booking_date :: "Booking \<Rightarrow> string" where
  "booking_date booking =
     (case split_on (CHR ''T'') (b_startTime booking) of p # ps \<Rightarrow> p | [] \<Rightarrow> [])"

fun byDate_push :: "string \<Rightarrow> Booking \<Rightarrow> (string \<times> Booking list) list \<Rightarrow> (string \<times> Booking list) list" where
  "byDate_push date booking [] = [(date, [booking])]"
| "byDate_push date booking ((k, list) # m) =
     (if k = date then (k, list @ [booking]) # m else (k, list) # byDate_push date booking m)"

definition group_by_date :: "Booking list \<Rightarrow> (string \<times> Booking list) list" where
  "group_by_date bookings = foldl (\<lambda>byDate booking. byDate_push (booking_date booking) booking byDate) [] bookings"


text \<open>
  \<^verbatim>\<open>
  .action(async (resourceArg, options) => {
    try {
      const date = parseDate(options.date);
      const officeId = options.office || getConfig().defaultOfficeId;
      const currentUser = getCurrentUser();
      let bookings = await getClient().listBookings({
        startDate: date, endDate: date, userId: currentUser.id, officeId });
      if (resourceArg) {
        const resources = await getClient().listResources({ officeId });
        const resource = resources.find(...);
        if (resource) { bookings = bookings.filter(b => b.resourceId === resource.id); }
      }
      if (bookings.length === 0) { ...; process.exit(1); }
      const booking = bookings[0];
      await getClient().checkIn(booking.id);
      ...
    } catch (err) { handleError(err); }
  })
  \<close>
  The argument is optional; \<open>if (resourceArg)\<close> fails for \<open>undefined\<close> and for the
  empty string.
\<close>

definition checkin_first :: "env \<Rightarrow> Booking list \<Rightarrow> http_request list \<Rightarrow> outcome \<times> http_request list" where
  "checkin_first e bookings log =
     (case bookings of
        [] \<Rightarrow> (BookingNotFound, log)
      | booking # rest \<Rightarrow>
          (case checkIn (env_fetch e) (b_id booking) log of
             (Inl err, log') \<Rightarrow> (Failed err, log')
           | (Inr b, log') \<Rightarrow> (CheckedIn, log')))"

definition checkin :: "env \<Rightarrow> string option \<Rightarrow> cancel_options \<Rightarrow> outcome \<times> http_request list" where
  "checkin e resourceArg options =
     (case parseDate (env_parseISO e) (env_now e) (co_date options) of
        Inl err \<Rightarrow> (Failed err, [])
      | Inr date \<Rightarrow>
     (let officeId = or_str (co_office options) (env_defaultOfficeId e);
          currentUser = getCurrentUser_id (env_vars e) in
      case listBookings (env_fetch e) (day_params date date (Some currentUser) officeId None) [] of
        (Inl err, log) \<Rightarrow> (Failed err, log)
      | (Inr bookings, log) \<Rightarrow>
     (case (case resourceArg of None \<Rightarrow> None | Some tok \<Rightarrow> if tok = [] then None else Some tok) of
        None \<Rightarrow> checkin_first e bookings log
      | Some tok \<Rightarrow>
          (case listResources (env_fetch e) (office_params officeId) log of
             (Inl err, log') \<Rightarrow> (Failed err, log')
           | (Inr resources, log') \<Rightarrow>
               (case find_resource (env_toLowerCase e) tok resources of
                  Some resource \<Rightarrow>
                    checkin_first e (filter (\<lambda>b. b_resourceId b = r_id resource) bookings) log'
                | None \<Rightarrow> checkin_first e bookings log')))))"

text \<open>A service and an environment at which the actions are evaluated.\<close>

definition booking1 :: Booking where
  "booking1 = \<lparr>b_id = ''bk1'', b_userId = ''u1'', b_resourceId = ''a1'', b_officeId = ''o1'',
     b_startTime = ''2024-03-16T09:00:00.000Z'', b_endTime = ''2024-03-16T18:00:00.000Z'',
     b_status = accepted, b_checkInStatus = checkin_pending\<rparr>"

definition booking2 :: Booking where
  "booking2 = \<lparr>b_id = ''bk2'', b_userId = ''u1'', b_resourceId = ''a2'', b_officeId = ''o1'',
     b_startTime = ''2024-03-15T09:00:00.000Z'', b_endTime = ''2024-03-15T18:00:00.000Z'',
     b_status = accepted, b_checkInStatus = checkin_pending\<rparr>"

definition page :: "'a list \<Rightarrow> 'a PaginatedResponse" where
  "page xs = \<lparr>pr_data = xs, pr_total = int (length xs), pr_limit = 100, pr_offset = 0\<rparr>"

definition json_response :: "json \<Rightarrow> http_response" where
  "json_response j = \<lparr>rs_status = 200, rs_statusText = ''OK'', rs_body = JsonBody ''{...}'' j\<rparr>"

definition service :: "Booking list \<Rightarrow> http_request list \<Rightarrow> http_request \<Rightarrow> http_response" where
  "service bookings log req =
     (if rq_method req = ''GET'' \<and> rq_path req = ''/offices''
        then json_response (JOffices (page [\<lparr>o_id = ''o1'', o_name = ''HQ''\<rparr>]))
      else if rq_method req = ''GET'' \<and> rq_path req = ''/resources''
        then json_response (JResources (page [desk1, desk12]))
      else if rq_method req = ''GET'' \<and> rq_path req = ''/users''
        then json_response (JUsers (page []))
      else if rq_method req = ''GET'' \<and> rq_path req = ''/bookings''
        then json_response (JBookings (page bookings))
      else if rq_method req = ''POST'' then json_response (JBooking booking1)
      else if rq_method req = ''DELETE'' then json_response (JOther ''{}'')
      else json_response (JBooking booking1))"

definition service1 :: "http_request list \<Rightarrow> http_request \<Rightarrow> http_response" where
  "service1 = service [booking1, booking2]"

definition env_of :: "Booking list \<Rightarrow> env" where
  "env_of bookings = \<lparr>env_now = day0, env_parseISO = parseISO_calendar,
     env_toLowerCase = ascii_lower, env_fetch = service bookings,
     env_vars = (\<lambda>k. if k = ''USER'' then Some ''u1'' else None),
     env_defaultOfficeId = Some ''o1''\<rparr>"

definition env1 :: env where
  "env1 = env_of [booking1, booking2]"

definition unauthorized_text :: "http_request list \<Rightarrow> http_request \<Rightarrow> http_response" where
  "unauthorized_text log req =
     \<lparr>rs_status = 401, rs_statusText = ''Unauthorized'', rs_body = TextBody ''Unauthorized''\<rparr>"









text \<open>
  Bookings of the first days of March 2024, within the fourteen days after 29 February.
\<close>

definition booking3 :: Booking where
  "booking3 = \<lparr>b_id = ''bk3'', b_userId = ''u1'', b_resourceId = ''a1'', b_officeId = ''o1'',
     b_startTime = ''2024-03-02T09:00:00.000Z'', b_endTime = ''2024-03-02T13:00:00.000Z'',
     b_status = accepted, b_checkInStatus = checkin_pending\<rparr>"

definition booking4 :: Booking where
  "booking4 = \<lparr>b_id = ''bk4'', b_userId = ''u1'', b_resourceId = ''a2'', b_officeId = ''o1'',
     b_startTime = ''2024-03-01T09:00:00.000Z'', b_endTime = ''2024-03-01T18:00:00.000Z'',
     b_status = accepted, b_checkInStatus = checkin_pending\<rparr>"


definition booking6 :: Booking where
  "booking6 = \<lparr>b_id = ''bk6'', b_userId = ''u1'', b_resourceId = ''a1'', b_officeId = ''o1'',
     b_startTime = ''2024-03-01T09:00:00.000Z'', b_endTime = ''2024-03-01T18:00:00.000Z'',
     b_status = accepted, b_checkInStatus = checkin_pending\<rparr>"

text \<open>
  For the statements: the query entry of an optional parameter, and the elements of a
  list in the order of their first occurrence.
\<close>

definition opt_param :: "string \<Rightarrow> string option \<Rightarrow> (string \<times> string) list" where
  "opt_param key v = (case v of None \<Rightarrow> [] | Some s \<Rightarrow> [(key, s)])"

definition first_occurrences :: "'a list \<Rightarrow> 'a list" where
  "first_occurrences xs = rev (remdups (rev xs))"

subsection \<open>Facts about the string functions\<close>

lemma includes_sublist: "includes_str s t = sublist t s"
  by (induction s) (simp_all add: sublist_Cons_right)

lemma ascii_lower_simps [simp]:
  "ascii_lower [] = []"
  "ascii_lower (c # s) = lower_char c # ascii_lower s"
  by (simp_all add: ascii_lower_def)


lemma lower_char_digit_free [simp]:
  "lower_char (CHR ''/'') = CHR ''/''"
  by (simp add: lower_char_def)

section \<open>Resource resolution: what the find expression selects\<close>

lemma find_resource_tiers:
  "find_resource lower token rs =
     find (\<lambda>r. tier1 token r \<or> tier2 lower token r \<or> tier3 lower token r) rs"
  by (simp add: find_resource_def tier1_def tier2_def tier3_def includes_sublist)


lemma find_cong_on_set:
  "(\<And>r. r \<in> set rs \<Longrightarrow> P r = Q r) \<Longrightarrow> find P rs = find Q rs"
  by (induction rs) auto

lemma tier2_imp_tier3: "tier2 lower token r \<Longrightarrow> tier3 lower token r"
  by (simp add: tier2_def tier3_def)

text \<open>
  Whatever the case folding is, the expression selects the first candidate, in input
  order, that satisfies at least one of the three tests, and finds nothing exactly when
  no candidate satisfies any of them.
\<close>

lemma find_resource_None_iff:
  "find_resource lower token rs = None \<longleftrightarrow>
     (\<forall>r \<in> set rs. \<not> tier1 token r \<and> \<not> tier2 lower token r \<and> \<not> tier3 lower token r)"
  by (auto simp: find_resource_tiers find_None_iff)



text \<open>
  Where the program and the tiered resolution agree: both fail on the same inputs, and
  when no candidate matches by identifier or by exact name both select the first
  candidate whose name contains the token.
\<close>

lemma find_resource_None_tiered:
  "find_resource lower token rs = None \<longleftrightarrow> resolve_tiered lower token rs = None"
proof
  assume "find_resource lower token rs = None"
  then have "\<forall>r \<in> set rs. \<not> tier1 token r \<and> \<not> tier2 lower token r \<and> \<not> tier3 lower token r"
    by (simp only: find_resource_None_iff)
  then have "find (tier1 token) rs = None" "find (tier2 lower token) rs = None"
    "find (tier3 lower token) rs = None"
    by (simp_all add: find_None_iff)
  then show "resolve_tiered lower token rs = None" by (simp add: resolve_tiered_def)
next
  assume "resolve_tiered lower token rs = None"
  then have "find (tier1 token) rs = None" "find (tier2 lower token) rs = None"
    "find (tier3 lower token) rs = None"
    by (simp_all add: resolve_tiered_def split: option.splits)
  then have "\<forall>r \<in> set rs. \<not> tier1 token r \<and> \<not> tier2 lower token r \<and> \<not> tier3 lower token r"
    by (simp add: find_None_iff)
  then show "find_resource lower token rs = None" by (simp only: find_resource_None_iff)
qed

lemma find_resource_substring_only:
  assumes "\<forall>r \<in> set rs. \<not> tier1 token r \<and> \<not> tier2 lower token r"
  shows "find_resource lower token rs = find (tier3 lower token) rs"
    and "find_resource lower token rs = resolve_tiered lower token rs"
proof -
  have "find (\<lambda>r. tier1 token r \<or> tier2 lower token r \<or> tier3 lower token r) rs =
      find (tier3 lower token) rs"
    by (rule find_cong_on_set) (use assms in simp)
  then show only3: "find_resource lower token rs = find (tier3 lower token) rs"
    by (simp only: find_resource_tiers)
  from assms have "find (tier1 token) rs = None" "find (tier2 lower token) rs = None"
    by (simp_all add: find_None_iff)
  then have "resolve_tiered lower token rs = find (tier3 lower token) rs"
    by (simp add: resolve_tiered_def)
  with only3 show "find_resource lower token rs = resolve_tiered lower token rs" by simp
qed

text \<open>
  The test for the exact name never decides: a name equal to the token contains the
  token, so the expression selects what it would select without that test.
\<close>

lemma exact_name_test_never_decides:
  "find_resource lower token rs =
     find (\<lambda>r. r_id r = token \<or> includes_str (lower (r_name r)) (lower token)) rs"
  unfolding find_resource_def
  by (rule find_cong_on_set) (auto simp: includes_sublist)

lemmas resource_eval =
  find_resource_def resolve_tiered_def tier1_def tier2_def tier3_def desk1_def desk12_def
  sala2_def lower_char_def sublist_Cons_right

text \<open>
  The examples of the specification, with the candidates in the order it gives them, are
  resolved as it says.
\<close>

lemma resolution_examples:
  "find_resource ascii_lower ''a1'' [desk1, desk12] = Some desk1"
  "find_resource ascii_lower ''desk 1'' [desk1, desk12] = Some desk1"
  "find_resource ascii_lower ''desk'' [desk1, desk12] = Some desk1"
  "find_resource ascii_lower ''zzz'' [desk1, desk12] = None"
  by (simp_all add: resource_eval)

text \<open>
  C1. The claim has a candidate that matches a higher tier selected over any candidate,
  even an earlier one, that matches only a lower tier. The program does not do that: the
  three tests are applied to one candidate at a time, so an earlier candidate whose name
  merely contains the token wins over a later one that matches by identifier or by exact
  name. With the candidates \<open>Sala2\<close> (identifier \<open>x9\<close>) and \<open>Desk 12\<close> (identifier
  \<open>a2\<close>), the token \<open>a2\<close> is the identifier of \<open>Desk 12\<close> and the tiered resolution
  selects \<open>Desk 12\<close>; the program selects \<open>Sala2\<close>, whose name contains \<open>a2\<close>. With
  \<open>Desk 12\<close> before \<open>Desk 1\<close>, the token \<open>desk 1\<close> is the name of \<open>Desk 1\<close> and the
  program selects \<open>Desk 12\<close>.
\<close>

theorem exact_match_loses_to_substring:
  "find_resource ascii_lower ''a2'' [sala2, desk12] = Some sala2
   \<and> resolve_tiered ascii_lower ''a2'' [sala2, desk12] = Some desk12
   \<and> tier1 ''a2'' desk12
   \<and> \<not> tier1 ''a2'' sala2 \<and> \<not> tier2 ascii_lower ''a2'' sala2 \<and> tier3 ascii_lower ''a2'' sala2
   \<and> find_resource ascii_lower ''desk 1'' [desk12, desk1] = Some desk12
   \<and> resolve_tiered ascii_lower ''desk 1'' [desk12, desk1] = Some desk1
   \<and> tier2 ascii_lower ''desk 1'' desk1
   \<and> \<not> tier1 ''desk 1'' desk12 \<and> \<not> tier2 ascii_lower ''desk 1'' desk12
   \<and> tier3 ascii_lower ''desk 1'' desk12"
  by (simp add: resource_eval)

section \<open>Time input: parseTime against the specification\<close>

lemma skipWhiteSpace_Nil [simp]: "skipWhiteSpace [] = []"
  by (subst skipWhiteSpace.simps) (simp add: whiteSpaceLength_def)

lemma skipWhiteSpace_ascii:
  assumes "(of_char c :: nat) < 128" "(of_char c :: nat) \<noteq> 32"
    "\<not> (9 \<le> (of_char c :: nat) \<and> (of_char c :: nat) \<le> 13)"
  shows "skipWhiteSpace (c # r) = c # r"
proof -
  from assms have "whiteSpaceLength (c # r) = 0"
    by (simp add: whiteSpaceLength_def split: list.splits)
  then show ?thesis by (subst skipWhiteSpace.simps) simp
qed

lemma skipWhiteSpace_digit [simp]: "isDigit c \<Longrightarrow> skipWhiteSpace (c # r) = c # r"
  by (rule skipWhiteSpace_ascii) (simp_all add: isDigit_def)

lemma isDigit_not_sign:
  "isDigit c \<Longrightarrow> c \<noteq> CHR ''-'' \<and> c \<noteq> CHR ''+'' \<and> c \<noteq> CHR '':'' \<and> c \<noteq> CHR ''/''"
  by (auto simp add: isDigit_def)

lemma parseInt_digits: "all_digits g \<Longrightarrow> parseInt g = Some (int (dec g))"
proof -
  assume a: "all_digits g"
  then obtain c r where g: "g = c # r" and c: "isDigit c" and r: "list_all isDigit r"
    by (cases g) (auto simp: all_digits_def)
  from r have tw: "\<forall>x \<in> set r. isDigit x"
    by (simp add: list_all_iff)
  show ?thesis
    using c isDigit_not_sign [OF c] tw
    by (simp add: parseInt_def g takeWhile_eq_all_conv [THEN iffD2])
qed

lemma toString_nat: "toString (int n) = digits_of n"
  by (simp add: toString_def)

lemma hs_suffix_Cons_not_digit: "hs_suffix (c # t) \<Longrightarrow> \<not> isDigit c"
  by (auto simp: hs_suffix_def isDigit_def lower_char_def split: if_splits)

text \<open>
  The first regular expression matches exactly when the digits at the start of the input
  are one or two and what follows them is \<open>h\<close> or \<open>hs\<close> in either case, or nothing; its
  group is those digits.
\<close>

lemma numMatch_char:
  "numMatch s =
     (let ds = takeWhile isDigit s; suf = dropWhile isDigit s
      in if all_digits ds \<and> length ds \<le> 2 \<and> hs_suffix suf then Some ds else None)"
proof (cases s)
  case Nil
  then show ?thesis by (simp add: numMatch_def all_digits_def)
next
  case (Cons d1 t1)
  show ?thesis
  proof (cases t1)
    case Nil
    with Cons show ?thesis by (simp add: numMatch_def all_digits_def hs_suffix_def)
  next
    case (Cons d2 t)
    note s = \<open>s = d1 # t1\<close> Cons
    show ?thesis
    proof (cases "isDigit d1")
      case False
      then show ?thesis by (simp add: s numMatch_def all_digits_def)
    next
      case d1: True
      show ?thesis
      proof (cases "isDigit d2")
        case False
        with d1 show ?thesis by (simp add: s numMatch_def all_digits_def)
      next
        case d2: True
        have nd2: "\<not> hs_suffix (d2 # t)" using d2 hs_suffix_Cons_not_digit by blast
        show ?thesis
        proof (cases t)
          case Nil
          with d1 d2 nd2 show ?thesis by (simp add: s numMatch_def all_digits_def hs_suffix_def)
        next
          case (Cons d3 t3)
          show ?thesis
          proof (cases "isDigit d3")
            case True
            then have "\<not> hs_suffix t" using Cons hs_suffix_Cons_not_digit by blast
            with d1 d2 nd2 True show ?thesis by (simp add: s Cons numMatch_def all_digits_def)
          next
            case False
            with d1 d2 nd2 show ?thesis by (simp add: s Cons numMatch_def all_digits_def)
          qed
        qed
      qed
    qed
  qed
qed

text \<open>
  The second regular expression matches exactly when the input is one or two digits, a
  colon and two digits; its groups are the two runs of digits.
\<close>

lemma timeMatch_char:
  "timeMatch s =
     (let hs = takeWhile isDigit s; rest = dropWhile isDigit s
      in case rest of
           [] \<Rightarrow> None
         | c # ms \<Rightarrow>
             if c = CHR '':'' \<and> all_digits hs \<and> length hs \<le> 2 \<and> all_digits ms \<and> length ms = 2
             then Some (hs, ms) else None)"
proof -
  have nc: "\<And>c. isDigit c \<Longrightarrow> c \<noteq> CHR '':''" using isDigit_not_sign by blast
  show ?thesis
  proof (cases s)
    case Nil
    then show ?thesis by (simp add: timeMatch_def)
  next
    case (Cons h1 t1)
    note s1 = Cons
    show ?thesis
    proof (cases "isDigit h1")
      case False
      then show ?thesis
        by (simp add: s1 timeMatch_def all_digits_def split: list.splits)
    next
      case h1: True
      show ?thesis
      proof (cases t1)
        case Nil
        with h1 show ?thesis by (simp add: s1 timeMatch_def)
      next
        case (Cons c2 t2)
        note s2 = Cons
        show ?thesis
        proof (cases "isDigit c2")
          case False
          with h1 show ?thesis
            by (auto simp: s1 s2 timeMatch_def all_digits_def split: list.splits)
        next
          case c2: True
          show ?thesis
          proof (cases t2)
            case Nil
            with h1 c2 show ?thesis by (simp add: s1 s2 timeMatch_def)
          next
            case (Cons c3 t3)
            note s3 = Cons
            show ?thesis
            proof (cases "isDigit c3")
              case True
              with h1 c2 nc [OF c2] nc [OF True] show ?thesis
                by (auto simp: s1 s2 s3 timeMatch_def all_digits_def Let_def split: list.splits)
            next
              case False
              with h1 c2 nc [OF c2] show ?thesis
                by (auto simp: s1 s2 s3 timeMatch_def all_digits_def split: list.splits)
            qed
          qed
        qed
      qed
    qed
  qed
qed

lemma bare_hour_amended:
  "bare_hour s = map_option (\<lambda>h. pad2 h @ '':00'') (amended_bare_hour s)"
proof (cases "all_digits (takeWhile isDigit s)")
  case True
  then show ?thesis
    by (simp add: bare_hour_def numMatch_char amended_bare_hour_def Let_def hs_suffix_def
        parseInt_digits toString_nat pad2_def)
next
  case False
  then show ?thesis
    by (simp add: bare_hour_def numMatch_char amended_bare_hour_def Let_def)
qed

lemma dropWhile_Cons_ex: "dropWhile P s = c # r \<Longrightarrow> \<exists>x \<in> set s. \<not> P x"
  by (metis dropWhile_eq_Nil_conv list.distinct(1))

lemma hour_minute_spec:
  "hour_minute s = map_option (\<lambda>(h, m). pad2 h @ '':'' @ pad2 m) (spec_hour_minute s)"
  by (auto simp: hour_minute_def timeMatch_char spec_hour_minute_def Let_def
        parseInt_digits toString_nat pad2_def split: list.splits dest: dropWhile_Cons_ex)

lemmas time_eval =
  parseTime_def bare_hour_def hour_minute_def numMatch_def timeMatch_def hs_suffix_def
  parseInt_def isDigit_def dec_def digit_val_def toString_def padStart_def
  digit_char_def lower_char_def digits_of.simps

lemmas spec_time_eval =
  amended_normalizeTime_def spec_normalizeTime_def amended_bare_hour_def spec_bare_hour_def
  spec_hour_minute_def all_digits_def pad2_def InvalidTime_def isDigit_def dec_def
  digit_val_def padStart_def digit_char_def lower_char_def digits_of.simps

text \<open>
  C7 (as amended). For every time input, \<open>parseTime\<close> returns \<open>undefined\<close> when the
  input is absent or is the empty string; returns the zero-padded \<open>HH:00\<close> for a bare
  hour of one or two digits with value in [0,23], followed by nothing or by \<open>h\<close> or
  \<open>hs\<close> in either case; returns the zero-padded \<open>HH:MM\<close> for one or two digits with
  value in [0,23], a colon, and two digits with value in [0,59]; and fails with
  \<open>InvalidTime\<close> for every other input.
\<close>

theorem parseTime_amended: "parseTime t = amended_normalizeTime t"
  by (auto simp: parseTime_def amended_normalizeTime_def bare_hour_amended hour_minute_spec
        InvalidTime_def split: option.splits)

text \<open>The examples of the specification, and a suffix in upper case.\<close>

theorem parseTime_amended_witness:
  "(parseTime (Some ''19'') :: unit error + string option) = Inr (Some ''19:00'')
   \<and> (parseTime (Some ''9:30'') :: unit error + string option) = Inr (Some ''09:30'')
   \<and> (parseTime (Some ''25:00'') :: unit error + string option) = Inl (InvalidTime ''25:00'')
   \<and> (parseTime (Some ''19HS'') :: unit error + string option) = Inr (Some ''19:00'')
   \<and> (parseTime None :: unit error + string option) = Inr None"
  unfolding parseTime_amended by (simp add: spec_time_eval)

text \<open>
  C7 as stated fails: the empty string is an input that is present and is neither a bare
  hour nor a time of day, so the claim has it fail with \<open>InvalidTime\<close>; the program
  returns \<open>undefined\<close> for it, as for absent input (\<open>!timeStr\<close> holds of the empty
  string). Likewise \<open>19HS\<close> does not end in \<open>h\<close> or \<open>hs\<close>, and the program accepts it.
\<close>

theorem empty_time_counterexample:
  "(parseTime (Some '''') :: unit error + string option) = Inr None
   \<and> (spec_normalizeTime (Some '''') :: unit error + string option) = Inl (InvalidTime '''')
   \<and> (parseTime (Some ''19HS'') :: unit error + string option) = Inr (Some ''19:00'')
   \<and> (spec_normalizeTime (Some ''19HS'') :: unit error + string option) = Inl (InvalidTime ''19HS'')"
  by (simp add: time_eval spec_time_eval)

section \<open>Date input: parseDate against the specification\<close>

























lemma digits_of_nonempty: "digits_of n \<noteq> []"
  by (subst digits_of.simps) simp















lemma replicate_small:
  "replicate 1 c = [c]" "replicate 2 c = [c, c]" "replicate 3 c = [c, c, c]"
  by (simp_all add: numeral_2_eq_2 numeral_3_eq_3)

lemmas date_eval = replicate_small
  parseDate_def slash_date_def new_Date_def make_date_def addDays_def format_date_def
  addLeadingZeros_def day_number_def DayFromYear_def days_before_month_def daysInMonth_def
  leap_def valid_civil_def parseISO_calendar_def day0_def manana_tilde_def InvalidDate_def
  next_day_def is_yyyy_mm_dd_def all_digits_def pad2_def
  parseInt_def isDigit_def dec_def digit_val_def toString_def padStart_def
  digit_char_def digits_of.simps roll.simps




text \<open>
  C6. The input \<open>32/1/2024\<close> matches none of the four rules: it is no keyword, no ISO
  calendar date, and as \<open>D/M/Y\<close> its day is out of range. The claim has it fail with
  \<open>InvalidDate\<close>; the program carries the day over into February and returns
  \<open>2024-02-01\<close> (and \<open>31/2/2023\<close> gives \<open>2023-03-03\<close>), because \<open>isValid\<close> only
  rejects a \<open>Date\<close> built from \<open>NaN\<close>. The input \<open>not-a-date\<close> does fail.
\<close>

theorem day_overflow_accepted:
  "(parseDate parseISO_calendar day0 (Some ''32/1/2024'') :: unit error + string) = Inr ''2024-02-01''
   \<and> parseISO_calendar ''32/1/2024'' = None
   \<and> \<not> valid_civil \<lparr>year = 2024, month = 0, day = 32\<rparr>
   \<and> (parseDate parseISO_calendar day0 (Some ''31/2/2023'') :: unit error + string) = Inr ''2023-03-03''
   \<and> (parseDate parseISO_calendar day0 (Some ''not-a-date'') :: unit error + string)
        = Inl (InvalidDate ''not-a-date'')"
  by (simp add: date_eval)

section \<open>The client operations: requests sent and results returned\<close>

lemma request_log:
  "snd (request fetch method path params body log) = log @ [build_request method path params body]"
  by (simp add: request_def Let_def)

lemma request_result:
  "fst (request fetch method path params body log) =
     handle_response (fetch log (build_request method path params body))"
  by (simp add: request_def Let_def)

lemma String_100 [simp]: "String (PNum 100) = ''100''" "String (PNum 0) = ''0''" "String (PStr s) = s"
  by (simp_all add: String_def toString_def digits_of.simps digit_char_def)

lemma listOffices_log:
  "snd (listOffices fetch log) =
     log @ [\<lparr>rq_method = ''GET'', rq_path = ''/offices'', rq_query = [(''limit'', ''100'')], rq_body = None\<rparr>]"
  by (simp add: listOffices_def request_def Let_def build_request_def)

lemma listResources_log:
  "snd (listResources fetch params log) =
     log @ [\<lparr>rq_method = ''GET'', rq_path = ''/resources'',
             rq_query = opt_param ''officeId'' (lr_officeId params) @ opt_param ''zoneId'' (lr_zoneId params)
               @ opt_param ''type'' (map_option ResourceType_string (lr_type params))
               @ [(''limit'', toString (or_num (lr_limit params) 100)),
                  (''offset'', toString (or_num (lr_offset params) 0))],
             rq_body = None\<rparr>]"
  by (simp add: listResources_def request_def Let_def build_request_def opt_param_def String_def
      split: option.splits)

lemma listUsers_log:
  "snd (listUsers fetch limit offset log) =
     log @ [\<lparr>rq_method = ''GET'', rq_path = ''/users'',
             rq_query = [(''limit'', toString (case limit of None \<Rightarrow> 100 | Some n \<Rightarrow> n)),
                         (''offset'', toString (case offset of None \<Rightarrow> 0 | Some n \<Rightarrow> n))],
             rq_body = None\<rparr>]"
  by (simp add: listUsers_def request_def Let_def build_request_def String_def)

lemma listBookings_log:
  "snd (listBookings fetch params log) =
     log @ [\<lparr>rq_method = ''GET'', rq_path = ''/bookings'',
             rq_query = [(''startDate'', lb_startDate params), (''endDate'', lb_endDate params)]
               @ opt_param ''userId'' (lb_userId params) @ opt_param ''officeId'' (lb_officeId params)
               @ opt_param ''resourceId'' (lb_resourceId params) @ opt_param ''zoneId'' (lb_zoneId params)
               @ opt_param ''status'' (map_option BookingStatus_string (lb_status params))
               @ [(''limit'', toString (or_num (lb_limit params) 100)),
                  (''offset'', toString (or_num (lb_offset params) 0))],
             rq_body = None\<rparr>]"
  by (simp add: listBookings_def request_def Let_def build_request_def opt_param_def String_def
      split: option.splits)


lemma toString_small [simp]: "toString 100 = ''100''" "toString 0 = ''0''"
  by (simp_all add: toString_def digits_of.simps digit_char_def)

lemma or_num_None [simp]: "or_num None d = d"
  by (simp add: or_num_def)

lemma handle_response_ok_json:
  "ok response \<Longrightarrow> rs_body response = JsonBody t j \<Longrightarrow> handle_response response = Inr j"
  by (simp add: handle_response_def response_json_def)

lemma list_unwrap:
  assumes "request fetch method path params body log = (r, log')"
    and "ok (fetch log (last log'))" and "rs_body (fetch log (last log')) = JsonBody t j"
    and "view j = Some p"
  shows "map_sum id pr_data (typed view r) = Inr (pr_data p)"
proof -
  from assms(1) have l: "last log' = build_request method path params body"
    and r: "r = handle_response (fetch log (build_request method path params body))"
    by (auto simp: request_def Let_def)
  from assms(2,3) have "r = Inr j" unfolding r l by (rule handle_response_ok_json)
  with assms(4) show ?thesis by (simp add: typed_def)
qed

text \<open>
  C8 (as amended). Every list operation sends one \<open>GET\<close> request and returns only the
  item sequence \<open>data\<close> of the paginated envelope of a successful response, discarding
  \<open>total\<close>, \<open>limit\<close> and \<open>offset\<close>. List resources, list bookings and list users
  send \<open>limit=100\<close> and \<open>offset=0\<close> when the caller leaves the pagination parameters
  unspecified; list offices takes no pagination parameters and always sends
  \<open>limit=100\<close> and no \<open>offset\<close>.
\<close>

theorem list_operations:
  "snd (listOffices fetch log) =
     log @ [\<lparr>rq_method = ''GET'', rq_path = ''/offices'', rq_query = [(''limit'', ''100'')], rq_body = None\<rparr>]
   \<and> (lr_limit rp = None \<and> lr_offset rp = None \<longrightarrow>
        snd (listResources fetch rp log) =
          log @ [\<lparr>rq_method = ''GET'', rq_path = ''/resources'',
                  rq_query = opt_param ''officeId'' (lr_officeId rp) @ opt_param ''zoneId'' (lr_zoneId rp)
                    @ opt_param ''type'' (map_option ResourceType_string (lr_type rp))
                    @ [(''limit'', ''100''), (''offset'', ''0'')],
                  rq_body = None\<rparr>])
   \<and> snd (listUsers fetch None None log) =
        log @ [\<lparr>rq_method = ''GET'', rq_path = ''/users'',
                rq_query = [(''limit'', ''100''), (''offset'', ''0'')], rq_body = None\<rparr>]
   \<and> (lb_limit bp = None \<and> lb_offset bp = None \<longrightarrow>
        snd (listBookings fetch bp log) =
          log @ [\<lparr>rq_method = ''GET'', rq_path = ''/bookings'',
                  rq_query = [(''startDate'', lb_startDate bp), (''endDate'', lb_endDate bp)]
                    @ opt_param ''userId'' (lb_userId bp) @ opt_param ''officeId'' (lb_officeId bp)
                    @ opt_param ''resourceId'' (lb_resourceId bp) @ opt_param ''zoneId'' (lb_zoneId bp)
                    @ opt_param ''status'' (map_option BookingStatus_string (lb_status bp))
                    @ [(''limit'', ''100''), (''offset'', ''0'')],
                  rq_body = None\<rparr>])
   \<and> (ok (fetch log (last (snd (listOffices fetch log))))
        \<and> rs_body (fetch log (last (snd (listOffices fetch log)))) = JsonBody t1 (JOffices p1)
        \<longrightarrow> fst (listOffices fetch log) = Inr (pr_data p1))
   \<and> (ok (fetch log (last (snd (listResources fetch rp log))))
        \<and> rs_body (fetch log (last (snd (listResources fetch rp log)))) = JsonBody t2 (JResources p2)
        \<longrightarrow> fst (listResources fetch rp log) = Inr (pr_data p2))
   \<and> (ok (fetch log (last (snd (listUsers fetch lim off log))))
        \<and> rs_body (fetch log (last (snd (listUsers fetch lim off log)))) = JsonBody t3 (JUsers p3)
        \<longrightarrow> fst (listUsers fetch lim off log) = Inr (pr_data p3))
   \<and> (ok (fetch log (last (snd (listBookings fetch bp log))))
        \<and> rs_body (fetch log (last (snd (listBookings fetch bp log)))) = JsonBody t4 (JBookings p4)
        \<longrightarrow> fst (listBookings fetch bp log) = Inr (pr_data p4))"
proof (intro conjI impI)
  show "snd (listOffices fetch log) =
     log @ [\<lparr>rq_method = ''GET'', rq_path = ''/offices'', rq_query = [(''limit'', ''100'')], rq_body = None\<rparr>]"
    by (rule listOffices_log)
next
  assume "lr_limit rp = None \<and> lr_offset rp = None"
  then show "snd (listResources fetch rp log) =
          log @ [\<lparr>rq_method = ''GET'', rq_path = ''/resources'',
                  rq_query = opt_param ''officeId'' (lr_officeId rp) @ opt_param ''zoneId'' (lr_zoneId rp)
                    @ opt_param ''type'' (map_option ResourceType_string (lr_type rp))
                    @ [(''limit'', ''100''), (''offset'', ''0'')],
                  rq_body = None\<rparr>]"
    by (simp add: listResources_log)
next
  show "snd (listUsers fetch None None log) =
        log @ [\<lparr>rq_method = ''GET'', rq_path = ''/users'',
                rq_query = [(''limit'', ''100''), (''offset'', ''0'')], rq_body = None\<rparr>]"
    by (simp add: listUsers_log)
next
  assume "lb_limit bp = None \<and> lb_offset bp = None"
  then show "snd (listBookings fetch bp log) =
          log @ [\<lparr>rq_method = ''GET'', rq_path = ''/bookings'',
                  rq_query = [(''startDate'', lb_startDate bp), (''endDate'', lb_endDate bp)]
                    @ opt_param ''userId'' (lb_userId bp) @ opt_param ''officeId'' (lb_officeId bp)
                    @ opt_param ''resourceId'' (lb_resourceId bp) @ opt_param ''zoneId'' (lb_zoneId bp)
                    @ opt_param ''status'' (map_option BookingStatus_string (lb_status bp))
                    @ [(''limit'', ''100''), (''offset'', ''0'')],
                  rq_body = None\<rparr>]"
    by (simp add: listBookings_log)
next
  assume a: "ok (fetch log (last (snd (listOffices fetch log))))
        \<and> rs_body (fetch log (last (snd (listOffices fetch log)))) = JsonBody t1 (JOffices p1)"
  obtain r log' where rq: "request fetch ''GET'' ''/offices'' [(''limit'', Some (PNum 100))] None log = (r, log')"
    by (cases "request fetch ''GET'' ''/offices'' [(''limit'', Some (PNum 100))] None log")
  with a have "ok (fetch log (last log'))" "rs_body (fetch log (last log')) = JsonBody t1 (JOffices p1)"
    by (simp_all add: listOffices_def)
  from list_unwrap [OF rq this, of as_offices p1] rq
  show "fst (listOffices fetch log) = Inr (pr_data p1)"
    by (simp add: listOffices_def as_offices_def)
next
  assume a: "ok (fetch log (last (snd (listResources fetch rp log))))
        \<and> rs_body (fetch log (last (snd (listResources fetch rp log)))) = JsonBody t2 (JResources p2)"
  obtain r log' where rq: "request fetch ''GET'' ''/resources''
            [(''officeId'', map_option PStr (lr_officeId rp)),
             (''zoneId'', map_option PStr (lr_zoneId rp)),
             (''type'', map_option (\<lambda>t. PStr (ResourceType_string t)) (lr_type rp)),
             (''limit'', Some (PNum (or_num (lr_limit rp) 100))),
             (''offset'', Some (PNum (or_num (lr_offset rp) 0)))] None log = (r, log')"
    by (rule prod.exhaust)
  with a have "ok (fetch log (last log'))" "rs_body (fetch log (last log')) = JsonBody t2 (JResources p2)"
    by (simp_all add: listResources_def)
  from list_unwrap [OF rq this, of as_resources p2] rq
  show "fst (listResources fetch rp log) = Inr (pr_data p2)"
    by (simp add: listResources_def as_resources_def)
next
  assume a: "ok (fetch log (last (snd (listUsers fetch lim off log))))
        \<and> rs_body (fetch log (last (snd (listUsers fetch lim off log)))) = JsonBody t3 (JUsers p3)"
  obtain r log' where rq: "request fetch ''GET'' ''/users''
            [(''limit'', Some (PNum (case lim of None \<Rightarrow> 100 | Some n \<Rightarrow> n))),
             (''offset'', Some (PNum (case off of None \<Rightarrow> 0 | Some n \<Rightarrow> n)))] None log = (r, log')"
    by (rule prod.exhaust)
  with a have "ok (fetch log (last log'))" "rs_body (fetch log (last log')) = JsonBody t3 (JUsers p3)"
    by (simp_all add: listUsers_def)
  from list_unwrap [OF rq this, of as_users p3] rq
  show "fst (listUsers fetch lim off log) = Inr (pr_data p3)"
    by (simp add: listUsers_def as_users_def)
next
  assume a: "ok (fetch log (last (snd (listBookings fetch bp log))))
        \<and> rs_body (fetch log (last (snd (listBookings fetch bp log)))) = JsonBody t4 (JBookings p4)"
  obtain r log' where rq: "request fetch ''GET'' ''/bookings''
            [(''startDate'', Some (PStr (lb_startDate bp))),
             (''endDate'', Some (PStr (lb_endDate bp))),
             (''userId'', map_option PStr (lb_userId bp)),
             (''officeId'', map_option PStr (lb_officeId bp)),
             (''resourceId'', map_option PStr (lb_resourceId bp)),
             (''zoneId'', map_option PStr (lb_zoneId bp)),
             (''status'', map_option (\<lambda>s. PStr (BookingStatus_string s)) (lb_status bp)),
             (''limit'', Some (PNum (or_num (lb_limit bp) 100))),
             (''offset'', Some (PNum (or_num (lb_offset bp) 0)))] None log = (r, log')"
    by (rule prod.exhaust)
  with a have "ok (fetch log (last log'))" "rs_body (fetch log (last log')) = JsonBody t4 (JBookings p4)"
    by (simp_all add: listBookings_def)
  from list_unwrap [OF rq this, of as_bookings p4] rq
  show "fst (listBookings fetch bp log) = Inr (pr_data p4)"
    by (simp add: listBookings_def as_bookings_def)
qed


lemmas service_eval =
  service1_def service_def json_response_def page_def ok_def office_params_def day_params_def opt_param_def

text \<open>List resources and list bookings against \<open>service1\<close>.\<close>

theorem list_operations_witness:
  "fst (listResources service1 (office_params (Some ''o1'')) []) = Inr [desk1, desk12]
   \<and> snd (listResources service1 (office_params (Some ''o1'')) []) =
       [\<lparr>rq_method = ''GET'', rq_path = ''/resources'',
         rq_query = [(''officeId'', ''o1''), (''limit'', ''100''), (''offset'', ''0'')], rq_body = None\<rparr>]
   \<and> fst (listBookings service1 (day_params ''2024-03-15'' ''2024-03-16'' (Some ''u1'') None None) [])
       = Inr [booking1, booking2]"
proof -
  let ?rp = "office_params (Some ''o1'')"
  let ?bp = "day_params ''2024-03-15'' ''2024-03-16'' (Some ''u1'') None None"
  note ops = list_operations [where fetch = service1 and log = "[]" and rp = ?rp and bp = ?bp
      and ?t2.0 = "''{...}''" and ?p2.0 = "page [desk1, desk12]"
      and ?t4.0 = "''{...}''" and ?p4.0 = "page [booking1, booking2]"]
  have h1: "lr_limit ?rp = None \<and> lr_offset ?rp = None" by (simp add: office_params_def)
  have h2: "lb_limit ?bp = None \<and> lb_offset ?bp = None" by (simp add: day_params_def)
  from ops h1 have l1: "snd (listResources service1 ?rp []) =
       [\<lparr>rq_method = ''GET'', rq_path = ''/resources'',
         rq_query = [(''officeId'', ''o1''), (''limit'', ''100''), (''offset'', ''0'')], rq_body = None\<rparr>]"
    by (simp add: office_params_def opt_param_def)
  have h3: "ok (service1 [] (last (snd (listResources service1 ?rp []))))
      \<and> rs_body (service1 [] (last (snd (listResources service1 ?rp [])))) = JsonBody ''{...}'' (JResources (page [desk1, desk12]))"
    unfolding l1 by (simp add: service_eval)
  from ops h3 have r1: "fst (listResources service1 ?rp []) = Inr (pr_data (page [desk1, desk12]))"
    by blast
  from ops h2 have l2: "snd (listBookings service1 ?bp []) =
       [\<lparr>rq_method = ''GET'', rq_path = ''/bookings'',
         rq_query = [(''startDate'', ''2024-03-15''), (''endDate'', ''2024-03-16''), (''userId'', ''u1''),
                     (''limit'', ''100''), (''offset'', ''0'')], rq_body = None\<rparr>]"
    by (simp add: day_params_def opt_param_def)
  have h4: "ok (service1 [] (last (snd (listBookings service1 ?bp []))))
      \<and> rs_body (service1 [] (last (snd (listBookings service1 ?bp [])))) = JsonBody ''{...}'' (JBookings (page [booking1, booking2]))"
    unfolding l2 by (simp add: service_eval)
  from ops h4 have r2: "fst (listBookings service1 ?bp []) = Inr (pr_data (page [booking1, booking2]))"
    by blast
  from l1 r1 r2 show ?thesis by (simp add: page_def)
qed

text \<open>
  C8 as stated fails for list offices: its request carries \<open>limit=100\<close> only; no
  \<open>offset\<close> is sent.
\<close>

theorem listOffices_no_offset_counterexample:
  "snd (listOffices service1 []) =
     [\<lparr>rq_method = ''GET'', rq_path = ''/offices'', rq_query = [(''limit'', ''100'')], rq_body = None\<rparr>]
   \<and> ''offset'' \<notin> fst ` set (rq_query (last (snd (listOffices service1 []))))"
  by (simp add: listOffices_log)

section \<open>Errors of the HTTP exchange\<close>

lemma handle_response_error_json:
  "\<not> ok response \<Longrightarrow> rs_body response = JsonBody t j \<Longrightarrow>
   handle_response response = Inl (api_error response (Json j))"
  by (simp add: handle_response_def response_json_def)

lemma handle_response_error_null:
  "\<not> ok response \<Longrightarrow> rs_body response = NullBody \<Longrightarrow>
   handle_response response = Inl (api_error response (Text []))"
  by (simp add: handle_response_def response_json_def response_text_def)

lemma handle_response_error_text:
  "\<not> ok response \<Longrightarrow> rs_body response = TextBody t \<Longrightarrow>
   handle_response response = Inl (TypeError ''Body is unusable: Body has already been read'')"
  by (simp add: handle_response_def response_json_def response_text_def)

text \<open>
  What holds of the classification: a response outside 200 to 299 whose body is JSON (or
  absent) raises the one \<open>DeskbirdAPIError\<close> that its status code determines, carrying
  the status code and the parsed body, after exactly one request.
\<close>

lemma error_classification_json:
  assumes "\<not> ok (fetch log (build_request method path params body))"
    and "rs_body (fetch log (build_request method path params body)) = JsonBody t j"
  shows "request fetch method path params body log =
           (Inl (api_error (fetch log (build_request method path params body)) (Json j)),
            log @ [build_request method path params body])"
  using handle_response_error_json [OF assms] by (simp add: request_def Let_def)

text \<open>
  C2. A 401 response whose body is the plain text \<open>Unauthorized\<close>: \<open>response.json()\<close>
  reads the body and rejects, and \<open>response.text()\<close> in the \<open>catch\<close> block then finds
  the body already read and rejects with a \<open>TypeError\<close>, which leaves \<open>request\<close> before
  the status code is looked at. The claim has this response raise \<open>Unauthorized\<close>
  carrying the raw text.
\<close>

theorem error_body_text_unusable:
  "request unauthorized_text ''GET'' ''/offices'' [(''limit'', Some (PNum 100))] None [] =
     (Inl (TypeError ''Body is unusable: Body has already been read''),
      [\<lparr>rq_method = ''GET'', rq_path = ''/offices'', rq_query = [(''limit'', ''100'')], rq_body = None\<rparr>])
   \<and> fst (listOffices unauthorized_text []) = Inl (TypeError ''Body is unusable: Body has already been read'')"
  by (simp add: request_def build_request_def handle_response_def ok_def response_json_def
      response_text_def unauthorized_text_def listOffices_def typed_def)

section \<open>The actions: requests sent and outcomes\<close>




lemma cancelBooking_log:
  "snd (cancelBooking fetch bookingId log) =
     log @ [\<lparr>rq_method = ''DELETE'', rq_path = ''/bookings/'' @ bookingId, rq_query = [], rq_body = None\<rparr>]"
  by (simp add: cancelBooking_def request_def Let_def build_request_def)

lemma checkIn_log:
  "snd (checkIn fetch bookingId log) =
     log @ [\<lparr>rq_method = ''PATCH'', rq_path = ''/bookings/'' @ bookingId @ ''/check-in'',
             rq_query = [], rq_body = None\<rparr>]"
  by (simp add: checkIn_def request_def Let_def build_request_def)

lemma office_resources_log:
  "snd (listResources fetch (office_params officeId) log) =
     log @ [\<lparr>rq_method = ''GET'', rq_path = ''/resources'',
             rq_query = opt_param ''officeId'' officeId @ [(''limit'', ''100''), (''offset'', ''0'')],
             rq_body = None\<rparr>]"
  by (simp add: listResources_log office_params_def opt_param_def)

lemma day_bookings_log:
  "snd (listBookings fetch (day_params startDate endDate userId officeId resourceId) log) =
     log @ [\<lparr>rq_method = ''GET'', rq_path = ''/bookings'',
             rq_query = [(''startDate'', startDate), (''endDate'', endDate)]
               @ opt_param ''userId'' userId @ opt_param ''officeId'' officeId
               @ opt_param ''resourceId'' resourceId @ [(''limit'', ''100''), (''offset'', ''0'')],
             rq_body = None\<rparr>]"
  by (simp add: listBookings_log day_params_def opt_param_def)


text \<open>
  C4. For every cancel request whose date is accepted and whose token resolves to a
  resource, the bookings of the current user for that resource on the normalized date are
  fetched after the resource listing. When the list is empty the action ends with
  \<open>BookingNotFound\<close> having sent those two \<open>GET\<close> requests only; otherwise the next and
  last request cancels the first booking of the list.
\<close>

theorem cancel_requests:
  assumes "(parseDate (env_parseISO e) (env_now e) (co_date options) :: json error + string) = Inr date"
    and "fst (listResources (env_fetch e)
               (office_params (or_str (co_office options) (env_defaultOfficeId e))) []) = Inr resources"
    and "find_resource (env_toLowerCase e) resourceArg resources = Some resource"
    and "listBookings (env_fetch e)
           (day_params date date (Some (getCurrentUser_id (env_vars e))) None (Some (r_id resource)))
           (snd (listResources (env_fetch e)
               (office_params (or_str (co_office options) (env_defaultOfficeId e))) []))
         = (Inr bookings, log)"
  shows "log =
      [\<lparr>rq_method = ''GET'', rq_path = ''/resources'',
        rq_query = opt_param ''officeId'' (or_str (co_office options) (env_defaultOfficeId e))
                     @ [(''limit'', ''100''), (''offset'', ''0'')],
        rq_body = None\<rparr>,
       \<lparr>rq_method = ''GET'', rq_path = ''/bookings'',
        rq_query = [(''startDate'', date), (''endDate'', date),
                    (''userId'', getCurrentUser_id (env_vars e)), (''resourceId'', r_id resource),
                    (''limit'', ''100''), (''offset'', ''0'')],
        rq_body = None\<rparr>]
     \<and> (bookings = [] \<longrightarrow> cancel e resourceArg options = (BookingNotFound, log))
     \<and> (\<forall>booking rest. bookings = booking # rest \<longrightarrow>
           snd (cancel e resourceArg options) =
             log @ [\<lparr>rq_method = ''DELETE'', rq_path = ''/bookings/'' @ b_id booking,
                     rq_query = [], rq_body = None\<rparr>])"
proof -
  let ?off = "or_str (co_office options) (env_defaultOfficeId e)"
  let ?bp = "day_params date date (Some (getCurrentUser_id (env_vars e))) None (Some (r_id resource))"
  obtain r log1 where lr: "listResources (env_fetch e) (office_params ?off) [] = (r, log1)"
    by (rule prod.exhaust)
  with assms(2) have r: "r = Inr resources" by simp
  from lr have log1: "log1 = [\<lparr>rq_method = ''GET'', rq_path = ''/resources'',
        rq_query = opt_param ''officeId'' ?off @ [(''limit'', ''100''), (''offset'', ''0'')],
        rq_body = None\<rparr>]"
    using office_resources_log [of "env_fetch e" ?off "[]"] by simp
  from assms(4) lr have lb: "listBookings (env_fetch e) ?bp log1 = (Inr bookings, log)" by simp
  then have log: "log = log1 @ [\<lparr>rq_method = ''GET'', rq_path = ''/bookings'',
        rq_query = [(''startDate'', date), (''endDate'', date),
                    (''userId'', getCurrentUser_id (env_vars e)), (''resourceId'', r_id resource),
                    (''limit'', ''100''), (''offset'', ''0'')],
        rq_body = None\<rparr>]"
    using day_bookings_log [of "env_fetch e" date date "Some (getCurrentUser_id (env_vars e))" None
        "Some (r_id resource)" log1]
    by (simp add: opt_param_def)
  have c: "cancel e resourceArg options =
      (case bookings of
         [] \<Rightarrow> (BookingNotFound, log)
       | booking # rest \<Rightarrow>
           (case cancelBooking (env_fetch e) (b_id booking) log of
              (Inl err, log'') \<Rightarrow> (Failed err, log'')
            | (Inr u, log'') \<Rightarrow> (BookingCancelled, log'')))"
    using assms(1,3) lr r lb by (simp add: cancel_def Let_def)
  have d: "\<And>booking rest. bookings = booking # rest \<Longrightarrow>
      snd (cancel e resourceArg options) = snd (cancelBooking (env_fetch e) (b_id booking) log)"
    unfolding c by (simp split: prod.splits sum.splits)
  show ?thesis
    using log log1 c d by (simp add: cancelBooking_log)
qed

text \<open>
  C10. In the check-in action, when a non-empty resource token matches no resource of the
  listing, the action never ends with \<open>ResourceNotFound\<close>: the bookings of the current
  user for the day are left unfiltered, the action ends with \<open>BookingNotFound\<close> when
  there are none, and otherwise its last request checks in the first of them.
\<close>

theorem checkin_unknown_resource:
  assumes "tok \<noteq> []"
    and "(parseDate (env_parseISO e) (env_now e) (co_date options) :: json error + string) = Inr date"
    and "fst (listBookings (env_fetch e)
           (day_params date date (Some (getCurrentUser_id (env_vars e)))
              (or_str (co_office options) (env_defaultOfficeId e)) None) []) = Inr bookings"
    and "listResources (env_fetch e) (office_params (or_str (co_office options) (env_defaultOfficeId e)))
           (snd (listBookings (env_fetch e)
             (day_params date date (Some (getCurrentUser_id (env_vars e)))
                (or_str (co_office options) (env_defaultOfficeId e)) None) []))
         = (Inr resources, log)"
    and "find_resource (env_toLowerCase e) tok resources = None"
  shows "(\<forall>x. fst (checkin e (Some tok) options) \<noteq> ResourceNotFound x)
     \<and> (bookings = [] \<longrightarrow> checkin e (Some tok) options = (BookingNotFound, log))
     \<and> (\<forall>booking rest. bookings = booking # rest \<longrightarrow>
           snd (checkin e (Some tok) options) =
             log @ [\<lparr>rq_method = ''PATCH'', rq_path = ''/bookings/'' @ b_id booking @ ''/check-in'',
                     rq_query = [], rq_body = None\<rparr>]
           \<and> (fst (checkin e (Some tok) options) = CheckedIn
               \<or> (\<exists>err. fst (checkin e (Some tok) options) = Failed err)))"
proof -
  let ?off = "or_str (co_office options) (env_defaultOfficeId e)"
  let ?bp = "day_params date date (Some (getCurrentUser_id (env_vars e))) ?off None"
  obtain r log1 where lb: "listBookings (env_fetch e) ?bp [] = (r, log1)"
    by (rule prod.exhaust)
  with assms(3) have r: "r = Inr bookings" by simp
  from assms(4) lb have lr: "listResources (env_fetch e) (office_params ?off) log1 = (Inr resources, log)"
    by simp
  have c: "checkin e (Some tok) options = checkin_first e bookings log"
    using assms(1,2,5) lb r lr by (simp add: checkin_def Let_def)
  have 1: "\<forall>x. fst (checkin_first e bookings log) \<noteq> ResourceNotFound x"
    by (simp add: checkin_first_def split: list.splits prod.splits sum.splits)
  have 2: "bookings = [] \<longrightarrow> checkin_first e bookings log = (BookingNotFound, log)"
    by (simp add: checkin_first_def)
  have 3: "\<forall>booking rest. bookings = booking # rest \<longrightarrow>
      snd (checkin_first e bookings log) = snd (checkIn (env_fetch e) (b_id booking) log)
      \<and> (fst (checkin_first e bookings log) = CheckedIn
          \<or> (\<exists>err. fst (checkin_first e bookings log) = Failed err))"
    by (auto simp: checkin_first_def split: prod.splits sum.splits)
  show ?thesis
    unfolding c using 1 2 3 by (simp add: checkIn_log)
qed



lemma set_first_occurrences [simp]: "set (first_occurrences xs) = set xs"
  by (simp add: first_occurrences_def)

lemma distinct_first_occurrences [simp]: "distinct (first_occurrences xs)"
  by (simp add: first_occurrences_def)







lemmas api_eval =
  listResources_def listBookings_def createBooking_def cancelBooking_def checkIn_def
  request_def handle_response_def response_json_def typed_def as_resources_def as_bookings_def
  build_request_def String_def or_num_def Let_def

lemmas env_eval =
  env1_def env_of_def getCurrentUser_id_def or_str_def or_time_def













text \<open>
  Cancelling \<open>desk 1\<close> on \<open>15/3/2024\<close>, against a service that returns two bookings and
  against one that returns none.
\<close>

theorem cancel_requests_witness:
  "snd (cancel env1 ''desk 1'' \<lparr>co_date = Some ''15/3/2024'', co_office = None\<rparr>) =
     [\<lparr>rq_method = ''GET'', rq_path = ''/resources'',
       rq_query = [(''officeId'', ''o1''), (''limit'', ''100''), (''offset'', ''0'')], rq_body = None\<rparr>,
      \<lparr>rq_method = ''GET'', rq_path = ''/bookings'',
       rq_query = [(''startDate'', ''2024-03-15''), (''endDate'', ''2024-03-15''), (''userId'', ''u1''),
                   (''resourceId'', ''a1''), (''limit'', ''100''), (''offset'', ''0'')], rq_body = None\<rparr>,
      \<lparr>rq_method = ''DELETE'', rq_path = ''/bookings/bk1'', rq_query = [], rq_body = None\<rparr>]
   \<and> cancel (env_of []) ''desk 1'' \<lparr>co_date = Some ''15/3/2024'', co_office = None\<rparr> =
     (BookingNotFound,
      [\<lparr>rq_method = ''GET'', rq_path = ''/resources'',
        rq_query = [(''officeId'', ''o1''), (''limit'', ''100''), (''offset'', ''0'')], rq_body = None\<rparr>,
       \<lparr>rq_method = ''GET'', rq_path = ''/bookings'',
        rq_query = [(''startDate'', ''2024-03-15''), (''endDate'', ''2024-03-15''), (''userId'', ''u1''),
                    (''resourceId'', ''a1''), (''limit'', ''100''), (''offset'', ''0'')], rq_body = None\<rparr>])"
proof -
  let ?o = "\<lparr>co_date = Some ''15/3/2024'', co_office = None\<rparr>"
  let ?log = "[\<lparr>rq_method = ''GET'', rq_path = ''/resources'',
        rq_query = [(''officeId'', ''o1''), (''limit'', ''100''), (''offset'', ''0'')], rq_body = None\<rparr>,
       \<lparr>rq_method = ''GET'', rq_path = ''/bookings'',
        rq_query = [(''startDate'', ''2024-03-15''), (''endDate'', ''2024-03-15''), (''userId'', ''u1''),
                    (''resourceId'', ''a1''), (''limit'', ''100''), (''offset'', ''0'')], rq_body = None\<rparr>]"
  have h1: "\<And>bs. (parseDate (env_parseISO (env_of bs)) (env_now (env_of bs)) (co_date ?o) :: json error + string)
      = Inr ''2024-03-15''"
    by (simp add: env_eval date_eval)
  have h2: "\<And>bs. fst (listResources (env_fetch (env_of bs))
               (office_params (or_str (co_office ?o) (env_defaultOfficeId (env_of bs)))) []) = Inr [desk1, desk12]"
    by (simp add: env_eval api_eval service_eval)
  have h3: "\<And>bs. find_resource (env_toLowerCase (env_of bs)) ''desk 1'' [desk1, desk12] = Some desk1"
    by (simp add: env_eval resource_eval)
  have h4: "\<And>bs. listBookings (env_fetch (env_of bs))
           (day_params ''2024-03-15'' ''2024-03-15'' (Some (getCurrentUser_id (env_vars (env_of bs)))) None
              (Some (r_id desk1)))
           (snd (listResources (env_fetch (env_of bs))
               (office_params (or_str (co_office ?o) (env_defaultOfficeId (env_of bs)))) []))
         = (Inr bs, ?log)"
    by (simp add: env_eval api_eval service_eval desk1_def)
  from cancel_requests [OF h1 h2 h3 h4, of "[booking1, booking2]"]
  have a: "snd (cancel env1 ''desk 1'' ?o) =
      ?log @ [\<lparr>rq_method = ''DELETE'', rq_path = ''/bookings/'' @ b_id booking1, rq_query = [], rq_body = None\<rparr>]"
    by (simp add: env1_def)
  from cancel_requests [OF h1 h2 h3 h4, of "[]"]
  have b: "cancel (env_of []) ''desk 1'' ?o = (BookingNotFound, ?log)"
    by simp
  from a b show ?thesis by (simp add: booking1_def)
qed

text \<open>
  Checking in with the token \<open>zzz\<close>, which matches neither desk.
\<close>

theorem checkin_unknown_resource_witness:
  "checkin env1 (Some ''zzz'') \<lparr>co_date = None, co_office = None\<rparr> =
     (CheckedIn,
      [\<lparr>rq_method = ''GET'', rq_path = ''/bookings'',
        rq_query = [(''startDate'', ''2024-02-29''), (''endDate'', ''2024-02-29''), (''userId'', ''u1''),
                    (''officeId'', ''o1''), (''limit'', ''100''), (''offset'', ''0'')], rq_body = None\<rparr>,
       \<lparr>rq_method = ''GET'', rq_path = ''/resources'',
        rq_query = [(''officeId'', ''o1''), (''limit'', ''100''), (''offset'', ''0'')], rq_body = None\<rparr>,
       \<lparr>rq_method = ''PATCH'', rq_path = ''/bookings/bk1/check-in'', rq_query = [], rq_body = None\<rparr>])"
proof -
  let ?o = "\<lparr>co_date = None, co_office = None\<rparr>"
  let ?log = "[\<lparr>rq_method = ''GET'', rq_path = ''/bookings'',
        rq_query = [(''startDate'', ''2024-02-29''), (''endDate'', ''2024-02-29''), (''userId'', ''u1''),
                    (''officeId'', ''o1''), (''limit'', ''100''), (''offset'', ''0'')], rq_body = None\<rparr>,
       \<lparr>rq_method = ''GET'', rq_path = ''/resources'',
        rq_query = [(''officeId'', ''o1''), (''limit'', ''100''), (''offset'', ''0'')], rq_body = None\<rparr>]"
  have h0: "''zzz'' \<noteq> []" by simp
  have h1: "(parseDate (env_parseISO env1) (env_now env1) (co_date ?o) :: json error + string)
      = Inr ''2024-02-29''"
    by (simp add: env_eval date_eval)
  have h2: "fst (listBookings (env_fetch env1)
           (day_params ''2024-02-29'' ''2024-02-29'' (Some (getCurrentUser_id (env_vars env1)))
              (or_str (co_office ?o) (env_defaultOfficeId env1)) None) []) = Inr [booking1, booking2]"
    by (simp add: env_eval api_eval service_eval)
  have h3: "listResources (env_fetch env1) (office_params (or_str (co_office ?o) (env_defaultOfficeId env1)))
           (snd (listBookings (env_fetch env1)
             (day_params ''2024-02-29'' ''2024-02-29'' (Some (getCurrentUser_id (env_vars env1)))
                (or_str (co_office ?o) (env_defaultOfficeId env1)) None) []))
         = (Inr [desk1, desk12], ?log)"
    by (simp add: env_eval api_eval service_eval)
  have h4: "find_resource (env_toLowerCase env1) ''zzz'' [desk1, desk12] = None"
    by (simp add: env_eval resource_eval)
  note r = checkin_unknown_resource [OF h0 h1 h2 h3 h4]
  from r have l: "snd (checkin env1 (Some ''zzz'') ?o) =
      ?log @ [\<lparr>rq_method = ''PATCH'', rq_path = ''/bookings/'' @ b_id booking1 @ ''/check-in'',
               rq_query = [], rq_body = None\<rparr>]"
    by simp
  have f: "fst (checkin env1 (Some ''zzz'') ?o) = CheckedIn"
    by (simp add: checkin_def checkin_first_def env_eval date_eval api_eval service_eval resource_eval)
  from l f show ?thesis by (simp add: booking1_def prod_eq_iff)
qed



text \<open>
  The groups can be ordered by date without the answer being so: the order of the groups
  is that of the first occurrences only.
\<close>

lemma ordered_groups_of_unordered_answer:
  "\<not> sorted (map booking_date [booking4, booking3, booking6])
   \<and> map fst (group_by_date [booking4, booking3, booking6]) = [''2024-03-01'', ''2024-03-02'']
   \<and> sorted (map fst (group_by_date [booking4, booking3, booking6]))"
  by (simp add: group_by_date_def booking_date_def booking3_def booking4_def booking6_def)

text \<open>
  Without a token, or with the empty token, the check-in action lists no resources at all
  and the bookings of the day are likewise left unfiltered.
\<close>

lemma checkin_without_token:
  assumes "(parseDate (env_parseISO e) (env_now e) (co_date options) :: json error + string) = Inr date"
    and "listBookings (env_fetch e)
           (day_params date date (Some (getCurrentUser_id (env_vars e)))
              (or_str (co_office options) (env_defaultOfficeId e)) None) [] = (Inr bookings, log)"
    and "resourceArg = None \<or> resourceArg = Some []"
  shows "checkin e resourceArg options = checkin_first e bookings log"
  using assms by (auto simp: checkin_def Let_def)

text \<open>
  A remark on cancel: \<open>request\<close> parses every successful response as JSON, so a success
  response without a body (204 No Content) makes \<open>cancelBooking\<close> throw a
  \<open>SyntaxError\<close> after the booking has been cancelled by the service.
\<close>

lemma cancelBooking_no_content:
  assumes "ok (fetch log (build_request ''DELETE'' (''/bookings/'' @ bookingId) [] None))"
    and "rs_body (fetch log (build_request ''DELETE'' (''/bookings/'' @ bookingId) [] None)) = NullBody"
  shows "fst (cancelBooking fetch bookingId log) = Inl (SyntaxError ''Unexpected end of JSON input'')"
  using assms by (simp add: cancelBooking_def request_def Let_def handle_response_def response_json_def)

end
